theory Spec2Isabelle
  imports Main
begin

section \<open>The CAPI client of go-capi (client.go)\<close>

text \<open>
  The client issues HTTP requests through an injected transport (the \<open>Doer\<close> interface),
  decodes JSON envelopes and follows links. The model below embeds every operation of
  client.go as a HOL function. What the package takes from the Go standard library is
  not part of the repository and stays a parameter of the model:
  \<^item> \<open>url.Parse\<close>, \<open>URL.Query\<close> and \<open>Values.Encode\<close> of net/url,
  \<^item> the JSON decoder applied to a response body (one parameter per decoded shape),
  \<^item> the transport itself, a state-passing function stored in the client.
  The cancellation context handed to every request and the \<open>time.Sleep\<close> of the task
  poller have no effect on the values computed and do not appear in the operations, so
  that these have no \<open>ctx\<close> argument and CreateTask has no \<open>interval\<close>. Time is the
  subject of a second embedding of the task poller, \<open>CreateTask_sleep\<close>, which keeps the
  sleep and runs in a world with a clock and the instant of the cancellation.
\<close>

subsection \<open>Errors\<close>

text \<open>
  Go's \<open>error\<close> values. \<open>Failure\<close> is an error produced outside the package (by
  \<open>url.Parse\<close>, by the transport, by the JSON decoder or by \<open>ioutil.ReadAll\<close>) and
  handed on unchanged; the other constructors are the errors client.go builds itself:
  \<open>fmt.Errorf("unexpected status code %d: %s", code, data)\<close>,
  \<open>fmt.Errorf("unexpected response %d: %s", code, data)\<close>,
  \<open>errors.New("empty results")\<close> and \<open>errors.New("task failed")\<close>.
\<close>

datatype error =
    Failure string
  | UnexpectedStatusCode int string
  | UnexpectedResponse int string
  | EmptyResults
  | TaskFailed

subsection \<open>Link rewriting\<close>

text \<open>
  \<open>strings.Replace(s, old, new, 1)\<close>: the leftmost occurrence of \<open>old\<close> in \<open>s\<close> is
  replaced by \<open>new\<close>; a string without an occurrence is returned as it is.
\<close>

fun strings_Replace1 :: "string \<Rightarrow> string \<Rightarrow> string \<Rightarrow> string" where
  "strings_Replace1 [] old new = (if old = [] then new else [])"
| "strings_Replace1 (c # cs) old new =
     (if take (length old) (c # cs) = old then new @ drop (length old) (c # cs)
      else c # strings_Replace1 cs old new)"

text \<open>
  The expression \<open>strings.Replace(x, "https", "http", 1)\<close>, which client.go applies to the
  base address (line 30), to the next link of Processes and ProcessStats (lines 145, 207),
  to the self link of the task poller (line 383), to the links of a task (lines 465, 533)
  and to the package and download links (lines 661, 715).
\<close>

definition http_for_https :: "string \<Rightarrow> string" where
  "http_for_https s = strings_Replace1 s ''https'' ''http''"

subsection \<open>Requests, responses and the client\<close>

text \<open>The fields of \<open>url.URL\<close> that the client reads or writes.\<close>

record URL =
  Scheme :: string
  Host :: string
  Path :: string
  RawQuery :: string

text \<open>
  \<open>http.Request\<close>: the URL, the method, the headers the client sets and the body.
  A request is built without a body (\<open>NoBody\<close>), with an empty reader
  (\<open>bytes.NewReader(nil)\<close>, \<open>EmptyBody\<close>) or with the JSON of a struct of
  \<open>command\<close>, \<open>name\<close> and \<open>droplet_guid\<close>, the last two left out of the JSON when
  empty. CreateTask's struct has no name field, which gives the JSON of an empty name.
\<close>

record TaskRequest =
  tr_Command :: string
  tr_Name :: string
  tr_DropletGuid :: string

datatype Body = NoBody | EmptyBody | JSON TaskRequest

record Request =
  req_URL :: URL
  req_Method :: string
  req_Header :: "(string \<times> string list) list"
  req_Body :: Body

text \<open>
  A response body is a stream: \<open>ioutil.ReadAll\<close> returns the bytes it could read and an
  error when the stream broke. \<open>content\<close> and \<open>broken\<close> are these two results.
\<close>

record ReadCloser =
  content :: string
  broken :: "error option"

definition ReadAll :: "ReadCloser \<Rightarrow> string \<times> error option" where
  "ReadAll b = (content b, broken b)"

record Response =
  StatusCode :: int
  resp_Body :: ReadCloser

text \<open>
  \<open>Doer.Do\<close> returns a response or an error and may change the world; \<open>'s\<close> is the
  state of the transport.
\<close>

type_synonym 's Doer = "'s \<Rightarrow> Request \<Rightarrow> (error + Response) \<times> 's"

record 's Client =
  addr :: string
  appGuid :: string
  spaceGuid :: string
  doer :: "'s Doer"

definition NewClient :: "string \<Rightarrow> string \<Rightarrow> string \<Rightarrow> 's Doer \<Rightarrow> 's Client" where
  "NewClient a app space d =
     \<lparr>addr = http_for_https a, appGuid = app, spaceGuid = space, doer = d\<rparr>"

subsection \<open>Decoded shapes\<close>

text \<open>
  The envelope of a list endpoint: \<open>results.Pagination.Next.Href\<close> and
  \<open>results.Resources\<close>. Processes and ProcessStats hand the decoded resources on
  untouched, so their element type is a type variable.
\<close>

record 'r Page =
  Next_Href :: string
  Resources :: "'r list"

record Links =
  Href :: string
  Method :: string

record Task =
  SequenceID :: int
  Name :: string
  Command :: string
  DiskInMB :: int
  MemoryInMB :: int
  State :: string
  DropletGuid :: string
  Guid :: string
  CreatedAt :: string
  UpdatedAt :: string
  Links :: "string \<rightharpoonup> Links"

text \<open>The envelope of the task poller: \<open>results.State\<close> and \<open>results.Links.Self.Href\<close>.\<close>

record TaskStatus =
  ts_State :: string
  Self_Href :: string

text \<open>The second shape GetPackageGuid decodes: \<open>gresult.Guid\<close> and
  \<open>gresult.Links.Download.Href\<close>.\<close>

record PackageInfo =
  pkg_Guid :: string
  Download_Href :: string

text \<open>
  \<open>url.Values\<close> is a map from a key to a slice of values, an absent key reading as the
  empty slice. \<open>Values.Add\<close> appends a value to the slice of its key.
\<close>

type_synonym Values = "string \<Rightarrow> string list"

definition Values_Add :: "Values \<Rightarrow> string \<Rightarrow> string \<Rightarrow> Values" where
  "Values_Add q k v = q(k := q k @ [v])"

subsection \<open>Paginated lists\<close>

text \<open>
  The loops of Processes, ProcessStats and ListTasks run until a page has an empty next
  link, which a server may never send: the first argument bounds the number of pages
  fetched, and \<open>None\<close> says that the bound was reached before the loop returned.
\<close>

fun Processes_loop ::
  "nat \<Rightarrow> (string \<Rightarrow> error + URL) \<Rightarrow> (ReadCloser \<Rightarrow> error + 'r Page) \<Rightarrow> 's Client \<Rightarrow>
   string \<Rightarrow> string \<Rightarrow> 'r list \<Rightarrow> 's \<Rightarrow> ((error + 'r list) \<times> 's) option" where
  "Processes_loop 0 parse decode c guid a processes s = None"
| "Processes_loop (Suc fuel) parse decode c guid a processes s =
     (case parse a of
        Inl err \<Rightarrow> Some (Inl err, s)
      | Inr u \<Rightarrow>
          (case doer c s \<lparr>req_URL = u\<lparr>Path := ''/v3/apps/'' @ guid @ ''/processes''\<rparr>,
                           req_Method = ''GET'', req_Header = [], req_Body = NoBody\<rparr> of
             (Inl err, s') \<Rightarrow> Some (Inl err, s')
           | (Inr resp, s') \<Rightarrow>
               if StatusCode resp \<noteq> 200 then
                 Some (Inl (UnexpectedStatusCode (StatusCode resp)
                              (fst (ReadAll (resp_Body resp)))), s')
               else
                 (case decode (resp_Body resp) of
                    Inl err \<Rightarrow> Some (Inl err, s')
                  | Inr results \<Rightarrow>
                      let next = http_for_https (Next_Href results);
                          processes' = processes @ Resources results
                      in if next \<noteq> [] then
                           Processes_loop fuel parse decode c guid next processes' s'
                         else Some (Inr processes', s'))))"

definition Processes ::
  "(string \<Rightarrow> error + URL) \<Rightarrow> (ReadCloser \<Rightarrow> error + 'r Page) \<Rightarrow> 's Client \<Rightarrow> string \<Rightarrow>
   nat \<Rightarrow> 's \<Rightarrow> ((error + 'r list) \<times> 's) option" where
  "Processes parse decode c guid fuel s = Processes_loop fuel parse decode c guid (addr c) [] s"

fun ProcessStats_loop ::
  "nat \<Rightarrow> (string \<Rightarrow> error + URL) \<Rightarrow> (ReadCloser \<Rightarrow> error + 'r Page) \<Rightarrow> 's Client \<Rightarrow>
   string \<Rightarrow> string \<Rightarrow> 'r list \<Rightarrow> 's \<Rightarrow> ((error + 'r list) \<times> 's) option" where
  "ProcessStats_loop 0 parse decode c guid a stats s = None"
| "ProcessStats_loop (Suc fuel) parse decode c guid a stats s =
     (case parse a of
        Inl err \<Rightarrow> Some (Inl err, s)
      | Inr u \<Rightarrow>
          (case doer c s \<lparr>req_URL = u\<lparr>Path := ''/v3/processes/'' @ guid @ ''/stats''\<rparr>,
                           req_Method = ''GET'', req_Header = [], req_Body = NoBody\<rparr> of
             (Inl err, s') \<Rightarrow> Some (Inl err, s')
           | (Inr resp, s') \<Rightarrow>
               if StatusCode resp \<noteq> 200 then
                 Some (Inl (UnexpectedStatusCode (StatusCode resp)
                              (fst (ReadAll (resp_Body resp)))), s')
               else
                 (case decode (resp_Body resp) of
                    Inl err \<Rightarrow> Some (Inl err, s')
                  | Inr results \<Rightarrow>
                      let next = http_for_https (Next_Href results);
                          stats' = stats @ Resources results
                      in if next \<noteq> [] then
                           ProcessStats_loop fuel parse decode c guid next stats' s'
                         else Some (Inr stats', s'))))"


text \<open>
  ListTasks rebuilds the query of every request: \<open>u.Query()\<close> parses the raw query of
  the current address (\<open>parse_query\<close>), the caller's parameters are added, and
  \<open>q.Encode()\<close> (\<open>encode\<close>) gives the raw query of the request. The caller's parameters
  are a Go map; the list gives its entries in the order the \<open>range\<close> visits them.
  The next link is followed as decoded, and the tasks are appended as decoded.
\<close>

fun ListTasks_loop ::
  "nat \<Rightarrow> (string \<Rightarrow> error + URL) \<Rightarrow> (string \<Rightarrow> Values) \<Rightarrow> (Values \<Rightarrow> string) \<Rightarrow>
   (ReadCloser \<Rightarrow> error + Task Page) \<Rightarrow> 's Client \<Rightarrow> string \<Rightarrow> (string \<times> string list) list \<Rightarrow>
   string \<Rightarrow> Task list \<Rightarrow> 's \<Rightarrow> ((error + Task list) \<times> 's) option" where
  "ListTasks_loop 0 parse parse_query encode decode c guid query a results s = None"
| "ListTasks_loop (Suc fuel) parse parse_query encode decode c guid query a results s =
     (case parse a of
        Inl err \<Rightarrow> Some (Inl err, s)
      | Inr u \<Rightarrow>
          let q = fold (\<lambda>(k, v) q. fold (\<lambda>vv q. Values_Add q k vv) v q) query
                    (parse_query (RawQuery u))
          in
          (case doer c s \<lparr>req_URL = u\<lparr>Path := ''/v3/apps/'' @ guid @ ''/tasks'',
                                        RawQuery := encode q\<rparr>,
                           req_Method = ''GET'', req_Header = [], req_Body = NoBody\<rparr> of
             (Inl err, s') \<Rightarrow> Some (Inl err, s')
           | (Inr resp, s') \<Rightarrow>
               if StatusCode resp \<noteq> 200 then
                 Some (Inl (UnexpectedStatusCode (StatusCode resp)
                              (fst (ReadAll (resp_Body resp)))), s')
               else
                 (case decode (resp_Body resp) of
                    Inl err \<Rightarrow> Some (Inl err, s')
                  | Inr tasks \<Rightarrow>
                      let results' = results @ Resources tasks
                      in if Next_Href tasks \<noteq> [] then
                           ListTasks_loop fuel parse parse_query encode decode c guid query
                             (Next_Href tasks) results' s'
                         else Some (Inr results', s'))))"

definition ListTasks ::
  "(string \<Rightarrow> error + URL) \<Rightarrow> (string \<Rightarrow> Values) \<Rightarrow> (Values \<Rightarrow> string) \<Rightarrow>
   (ReadCloser \<Rightarrow> error + Task Page) \<Rightarrow> 's Client \<Rightarrow> string \<Rightarrow> (string \<times> string list) list \<Rightarrow>
   nat \<Rightarrow> 's \<Rightarrow> ((error + Task list) \<times> 's) option" where
  "ListTasks parse parse_query encode decode c guid query fuel s =
     ListTasks_loop fuel parse parse_query encode decode c guid query (addr c) [] s"

subsection \<open>Single-resource fetchers\<close>

text \<open>
  GetAppGuid decodes \<open>result.Resources\<close>; the list holds the \<open>MetaData.Guid\<close> of each
  resource. The first one is returned when the list is not empty.
\<close>

definition GetAppGuid ::
  "(string \<Rightarrow> error + URL) \<Rightarrow> (ReadCloser \<Rightarrow> error + string list) \<Rightarrow> 's Client \<Rightarrow> string \<Rightarrow>
   's \<Rightarrow> (error + string) \<times> 's" where
  "GetAppGuid parse decode c appName s =
     (case parse (addr c @ ''/v2/apps?q=name%3A'' @ appName @ ''&q=space_guid%3A'' @ spaceGuid c) of
        Inl err \<Rightarrow> (Inl err, s)
      | Inr u \<Rightarrow>
          (case doer c s \<lparr>req_URL = u, req_Method = ''GET'',
                           req_Header = [(''Accept'', [''application/json''])],
                           req_Body = NoBody\<rparr> of
             (Inl err, s') \<Rightarrow> (Inl err, s')
           | (Inr resp, s') \<Rightarrow>
               if StatusCode resp \<noteq> 200 then
                 (case ReadAll (resp_Body resp) of
                    (data, Some err) \<Rightarrow> (Inl err, s')
                  | (data, None) \<Rightarrow> (Inl (UnexpectedResponse (StatusCode resp) data), s'))
               else
                 (case decode (resp_Body resp) of
                    Inl err \<Rightarrow> (Inl err, s')
                  | Inr result \<Rightarrow>
                      (case result of
                         [] \<Rightarrow> (Inl EmptyResults, s')
                       | guid # _ \<Rightarrow> (Inr guid, s')))))"

text \<open>GetDropletGuid decodes \<open>result.Guid\<close>.\<close>

definition GetDropletGuid ::
  "(string \<Rightarrow> error + URL) \<Rightarrow> (ReadCloser \<Rightarrow> error + string) \<Rightarrow> 's Client \<Rightarrow> string \<Rightarrow>
   's \<Rightarrow> (error + string) \<times> 's" where
  "GetDropletGuid parse decode c guid s =
     (case parse (addr c @ ''/v3/apps/'' @ guid @ ''/droplets/current'') of
        Inl err \<Rightarrow> (Inl err, s)
      | Inr u \<Rightarrow>
          (case doer c s \<lparr>req_URL = u, req_Method = ''GET'',
                           req_Header = [(''Accept'', [''application/json''])],
                           req_Body = NoBody\<rparr> of
             (Inl err, s') \<Rightarrow> (Inl err, s')
           | (Inr resp, s') \<Rightarrow>
               if StatusCode resp \<noteq> 200 then
                 (case ReadAll (resp_Body resp) of
                    (data, Some err) \<Rightarrow> (Inl err, s')
                  | (data, None) \<Rightarrow> (Inl (UnexpectedResponse (StatusCode resp) data), s'))
               else
                 (case decode (resp_Body resp) of
                    Inl err \<Rightarrow> (Inl err, s')
                  | Inr result \<Rightarrow>
                      if result = [] then (Inl EmptyResults, s') else (Inr result, s'))))"

text \<open>
  GetPackageGuid makes two requests: the current droplet, of which it decodes
  \<open>result.Links.Package.Href\<close>, and then the package behind that link.
\<close>

definition GetPackageGuid ::
  "(string \<Rightarrow> error + URL) \<Rightarrow> (ReadCloser \<Rightarrow> error + string) \<Rightarrow>
   (ReadCloser \<Rightarrow> error + PackageInfo) \<Rightarrow> 's Client \<Rightarrow> string \<Rightarrow>
   's \<Rightarrow> (error + string \<times> string) \<times> 's" where
  "GetPackageGuid parse decode gdecode c guid s =
     (case parse (addr c @ ''/v3/apps/'' @ guid @ ''/droplets/current'') of
        Inl err \<Rightarrow> (Inl err, s)
      | Inr u \<Rightarrow>
          (case doer c s \<lparr>req_URL = u, req_Method = ''GET'',
                           req_Header = [(''Accept'', [''application/json''])],
                           req_Body = NoBody\<rparr> of
             (Inl err, s1) \<Rightarrow> (Inl err, s1)
           | (Inr resp, s1) \<Rightarrow>
               if StatusCode resp \<noteq> 200 then
                 (case ReadAll (resp_Body resp) of
                    (data, Some err) \<Rightarrow> (Inl err, s1)
                  | (data, None) \<Rightarrow> (Inl (UnexpectedResponse (StatusCode resp) data), s1))
               else
                 (case decode (resp_Body resp) of
                    Inl err \<Rightarrow> (Inl err, s1)
                  | Inr result \<Rightarrow>
                      if result = [] then (Inl EmptyResults, s1)
                      else
                        (case parse (http_for_https result) of
                           Inl err \<Rightarrow> (Inl err, s1)
                         | Inr u2 \<Rightarrow>
                             (case doer c s1 \<lparr>req_URL = u2, req_Method = ''GET'',
                                               req_Header = [(''Accept'', [''application/json''])],
                                               req_Body = NoBody\<rparr> of
                                (Inl err, s2) \<Rightarrow> (Inl err, s2)
                              | (Inr resp2, s2) \<Rightarrow>
                                  if StatusCode resp2 \<noteq> 200 then
                                    (case ReadAll (resp_Body resp2) of
                                       (data, Some err) \<Rightarrow> (Inl err, s2)
                                     | (data, None) \<Rightarrow>
                                         (Inl (UnexpectedResponse (StatusCode resp2) data), s2))
                                  else
                                    (case gdecode (resp_Body resp2) of
                                       Inl err \<Rightarrow> (Inl err, s2)
                                     | Inr gresult \<Rightarrow>
                                         if pkg_Guid gresult = [] \<or> Download_Href gresult = []
                                         then (Inl EmptyResults, s2)
                                         else (Inr (pkg_Guid gresult,
                                                    http_for_https (Download_Href gresult)),
                                               s2)))))))"

text \<open>GetEnvironmentVariables decodes \<open>t.Var\<close> and returns it.\<close>

definition GetEnvironmentVariables ::
  "(string \<Rightarrow> error + URL) \<Rightarrow> (ReadCloser \<Rightarrow> error + (string \<rightharpoonup> string)) \<Rightarrow> 's Client \<Rightarrow>
   string \<Rightarrow> 's \<Rightarrow> (error + (string \<rightharpoonup> string)) \<times> 's" where
  "GetEnvironmentVariables parse decode c guid s =
     (let guid' = (if guid = [] then appGuid c else guid) in
      case parse (addr c) of
        Inl err \<Rightarrow> (Inl err, s)
      | Inr u \<Rightarrow>
          (case doer c s \<lparr>req_URL = u\<lparr>Path := ''/v3/apps/'' @ guid' @ ''/environment_variables''\<rparr>,
                           req_Method = ''GET'',
                           req_Header = [(''Accept'', [''application/json''])],
                           req_Body = EmptyBody\<rparr> of
             (Inl err, s') \<Rightarrow> (Inl err, s')
           | (Inr resp, s') \<Rightarrow>
               if StatusCode resp \<noteq> 200 then
                 (Inl (UnexpectedStatusCode (StatusCode resp)
                         (fst (ReadAll (resp_Body resp)))), s')
               else
                 (case decode (resp_Body resp) of
                    Inl err \<Rightarrow> (Inl err, s')
                  | Inr t \<Rightarrow> (Inr t, s'))))"

subsection \<open>Tasks\<close>

text \<open>
  The polling loop of CreateTask (lines 369 to 420), entered with the response to the
  POST. Each round decodes the status envelope of the response at hand; on RUNNING it
  sleeps, requests the rewritten self link and goes round again with the new response,
  whose status code it does not look at. The first argument bounds the number of rounds.
\<close>

fun CreateTask_loop ::
  "nat \<Rightarrow> (string \<Rightarrow> error + URL) \<Rightarrow> (ReadCloser \<Rightarrow> error + TaskStatus) \<Rightarrow> 's Client \<Rightarrow>
   Response \<Rightarrow> 's \<Rightarrow> ((error + unit) \<times> 's) option" where
  "CreateTask_loop 0 parse decode c resp s = None"
| "CreateTask_loop (Suc fuel) parse decode c resp s =
     (case decode (resp_Body resp) of
        Inl err \<Rightarrow> Some (Inl err, s)
      | Inr results \<Rightarrow>
          let self = http_for_https (Self_Href results) in
          if ts_State results = ''RUNNING'' then
            (case parse self of
               Inl err \<Rightarrow> Some (Inl err, s)
             | Inr u \<Rightarrow>
                 (case doer c s \<lparr>req_URL = u, req_Method = ''GET'', req_Header = [],
                                  req_Body = NoBody\<rparr> of
                    (Inl err, s') \<Rightarrow> Some (Inl err, s')
                  | (Inr resp', s') \<Rightarrow> CreateTask_loop fuel parse decode c resp' s'))
          else if ts_State results = ''FAILED'' then Some (Inl TaskFailed, s)
          else Some (Inr (), s))"

definition CreateTask ::
  "(string \<Rightarrow> error + URL) \<Rightarrow> (ReadCloser \<Rightarrow> error + TaskStatus) \<Rightarrow> 's Client \<Rightarrow> string \<Rightarrow>
   nat \<Rightarrow> 's \<Rightarrow> ((error + unit) \<times> 's) option" where
  "CreateTask parse decode c command fuel s =
     (case parse (addr c) of
        Inl err \<Rightarrow> Some (Inl err, s)
      | Inr u \<Rightarrow>
          (case doer c s \<lparr>req_URL = u\<lparr>Path := ''/v3/apps/'' @ appGuid c @ ''/tasks''\<rparr>,
                           req_Method = ''POST'',
                           req_Header = [(''Content-Type'', [''application/json''])],
                           req_Body = JSON \<lparr>tr_Command = command, tr_Name = [],
                                             tr_DropletGuid = []\<rparr>\<rparr> of
             (Inl err, s') \<Rightarrow> Some (Inl err, s')
           | (Inr resp, s') \<Rightarrow>
               if StatusCode resp \<noteq> 202 then
                 Some (Inl (UnexpectedStatusCode (StatusCode resp)
                              (fst (ReadAll (resp_Body resp)))), s')
               else CreateTask_loop fuel parse decode c resp s'))"

text \<open>
  GetTask and RunTask rewrite the link map of the decoded task: the \<open>range\<close> visits every
  key once and stores the rewritten link under the same key.
\<close>

definition GetTask ::
  "(string \<Rightarrow> error + URL) \<Rightarrow> (ReadCloser \<Rightarrow> error + Task) \<Rightarrow> 's Client \<Rightarrow> string \<Rightarrow>
   's \<Rightarrow> (error + Task) \<times> 's" where
  "GetTask parse decode c guid s =
     (case parse (addr c) of
        Inl err \<Rightarrow> (Inl err, s)
      | Inr u \<Rightarrow>
          (case doer c s \<lparr>req_URL = u\<lparr>Path := ''/v3/tasks/'' @ guid\<rparr>, req_Method = ''GET'',
                           req_Header = [(''Accept'', [''application/json''])],
                           req_Body = EmptyBody\<rparr> of
             (Inl err, s') \<Rightarrow> (Inl err, s')
           | (Inr resp, s') \<Rightarrow>
               if StatusCode resp \<noteq> 200 then
                 (Inl (UnexpectedStatusCode (StatusCode resp)
                         (fst (ReadAll (resp_Body resp)))), s')
               else
                 (case decode (resp_Body resp) of
                    Inl err \<Rightarrow> (Inl err, s')
                  | Inr task \<Rightarrow>
                      (Inr (task\<lparr>Links :=
                              (\<lambda>k. map_option
                                     (\<lambda>l. l\<lparr>Href := http_for_https (Href l),
                                             Method := (if Method l = [] then ''GET''
                                                        else Method l)\<rparr>)
                                     (Links task k))\<rparr>), s'))))"

definition RunTask ::
  "(string \<Rightarrow> error + URL) \<Rightarrow> (ReadCloser \<Rightarrow> error + Task) \<Rightarrow> 's Client \<Rightarrow> string \<Rightarrow> string \<Rightarrow>
   string \<Rightarrow> string \<Rightarrow> 's \<Rightarrow> (error + Task) \<times> 's" where
  "RunTask parse decode c command name droplet guid s =
     (let guid' = (if guid = [] then appGuid c else guid) in
      case parse (addr c) of
        Inl err \<Rightarrow> (Inl err, s)
      | Inr u \<Rightarrow>
          (case doer c s \<lparr>req_URL = u\<lparr>Path := ''/v3/apps/'' @ guid' @ ''/tasks''\<rparr>,
                           req_Method = ''POST'',
                           req_Header = [(''Content-Type'', [''application/json''])],
                           req_Body = JSON \<lparr>tr_Command = command, tr_Name = name,
                                             tr_DropletGuid = droplet\<rparr>\<rparr> of
             (Inl err, s') \<Rightarrow> (Inl err, s')
           | (Inr resp, s') \<Rightarrow>
               if StatusCode resp \<noteq> 202 then
                 (Inl (UnexpectedStatusCode (StatusCode resp)
                         (fst (ReadAll (resp_Body resp)))), s')
               else
                 (case decode (resp_Body resp) of
                    Inl err \<Rightarrow> (Inl err, s')
                  | Inr t \<Rightarrow>
                      (Inr (t\<lparr>Links :=
                              (\<lambda>k. map_option
                                     (\<lambda>l. l\<lparr>Href := http_for_https (Href l),
                                             Method := (if Method l = [] then ''GET''
                                                        else Method l)\<rparr>)
                                     (Links t k))\<rparr>), s'))))"

subsection \<open>A transport that replays a script\<close>

text \<open>
  To speak of the sequence of responses an operation receives and of the requests it
  issues, the transport is instantiated with one that answers from a script: it hands
  out the scripted results in order and records every request it is given. Its state is
  the rest of the script and the requests seen so far.
\<close>

type_synonym Script = "(error + Response) list \<times> Request list"

definition replay :: "Script Doer" where
  "replay s req =
     (case fst s of
        [] \<Rightarrow> (Inl (Failure ''no scripted response''), ([], snd s @ [req]))
      | r # rs \<Rightarrow> (r, (rs, snd s @ [req])))"

subsection \<open>Stand-ins for the standard library in closed examples\<close>

text \<open>
  The theorems below hold for every \<open>url.Parse\<close>, query codec and JSON decoder. Closed
  examples need concrete ones. \<open>simple_Parse\<close> splits an address of the shape
  \<open>scheme://host/path?query\<close> the way \<open>url.Parse\<close> does and refuses every other string;
  \<open>simple_ParseQuery\<close> reads \<open>k=v\<close> pairs separated by \<open>&\<close>; \<open>keyed_Encode keys\<close> writes
  the values of the given keys, which the caller lists in sorted order as
  \<open>Values.Encode\<close> would visit them. No example has a character that needs escaping,
  and none parses an address of another shape (\<open>url.Parse\<close> accepts more, the empty
  string among them).
  \<open>table_decoder\<close> decodes a body by looking its content up in a table of the JSON
  texts of the example, and fails on a broken stream and on any other text.
\<close>

definition simple_Parse :: "string \<Rightarrow> error + URL" where
  "simple_Parse s =
     (let scheme = takeWhile (\<lambda>x. x \<noteq> CHR '':'') s;
          r = drop (length scheme) s
      in if take 3 r \<noteq> ''://'' then Inl (Failure ''unsupported address'')
         else
           let r1 = drop 3 r;
               host = takeWhile (\<lambda>x. x \<noteq> CHR ''/'' \<and> x \<noteq> CHR ''?'') r1;
               r2 = drop (length host) r1;
               path = takeWhile (\<lambda>x. x \<noteq> CHR ''?'') r2
           in Inr \<lparr>Scheme = scheme, Host = host, Path = path,
                   RawQuery = drop (Suc (length path)) r2\<rparr>)"

definition split_on :: "char \<Rightarrow> string \<Rightarrow> string list" where
  "split_on sep s =
     foldr (\<lambda>x ps. if x = sep then [] # ps
                    else (case ps of [] \<Rightarrow> [[x]] | p # ps' \<Rightarrow> (x # p) # ps')) s [[]]"

definition simple_ParseQuery :: "string \<Rightarrow> Values" where
  "simple_ParseQuery raw =
     fold (\<lambda>kv q. if kv = [] then q
                   else Values_Add q (takeWhile (\<lambda>x. x \<noteq> CHR ''='') kv)
                          (drop (Suc (length (takeWhile (\<lambda>x. x \<noteq> CHR ''='') kv))) kv))
       (split_on CHR ''&'' raw) (\<lambda>k. [])"

fun join :: "string \<Rightarrow> string list \<Rightarrow> string" where
  "join sep [] = []"
| "join sep [x] = x"
| "join sep (x # y # ys) = x @ sep @ join sep (y # ys)"

definition keyed_Encode :: "string list \<Rightarrow> Values \<Rightarrow> string" where
  "keyed_Encode keys q = join ''&'' (concat (map (\<lambda>k. map (\<lambda>v. k @ ''='' @ v) (q k)) keys))"

definition table_decoder :: "(string \<times> 'a) list \<Rightarrow> ReadCloser \<Rightarrow> error + 'a" where
  "table_decoder tbl b =
     (case broken b of
        Some err \<Rightarrow> Inl err
      | None \<Rightarrow>
          (case map_of tbl (content b) of
             None \<Rightarrow> Inl (Failure ''invalid JSON'')
           | Some v \<Rightarrow> Inr v))"

definition ok :: "int \<Rightarrow> string \<Rightarrow> error + Response" where
  "ok code text = Inr \<lparr>StatusCode = code, resp_Body = \<lparr>content = text, broken = None\<rparr>\<rparr>"

subsection \<open>Well-formed sequences of pages\<close>

text \<open>
  A response carries a page when its status is 200 and its body decodes to the page.
  A sequence of pages is well formed for an operation when it is not empty, every page
  but the last has a non-empty next link that, rewritten the way the operation rewrites
  it, parses as an address, and the last page has an empty next link.
\<close>

definition page_response :: "(ReadCloser \<Rightarrow> error + 'r Page) \<Rightarrow> Response \<Rightarrow> 'r Page \<Rightarrow> bool" where
  "page_response decode resp p \<longleftrightarrow> StatusCode resp = 200 \<and> decode (resp_Body resp) = Inr p"

definition well_formed_pages ::
  "(string \<Rightarrow> error + URL) \<Rightarrow> (string \<Rightarrow> string) \<Rightarrow> (ReadCloser \<Rightarrow> error + 'r Page) \<Rightarrow>
   Response list \<Rightarrow> 'r Page list \<Rightarrow> bool" where
  "well_formed_pages parse rewrite decode resps pages \<longleftrightarrow>
     pages \<noteq> [] \<and> list_all2 (page_response decode) resps pages \<and>
     list_all (\<lambda>p. Next_Href p \<noteq> [] \<and> \<not> isl (parse (rewrite (Next_Href p)))) (butlast pages) \<and>
     Next_Href (last pages) = []"

text \<open>
  The request ListTasks builds for the address \<open>a\<close>: the parsed address with the path
  of the task list and with the caller's parameters added to the address's own query.
\<close>

definition tasks_request ::
  "(string \<Rightarrow> error + URL) \<Rightarrow> (string \<Rightarrow> Values) \<Rightarrow> (Values \<Rightarrow> string) \<Rightarrow> string \<Rightarrow>
   (string \<times> string list) list \<Rightarrow> string \<Rightarrow> Request" where
  "tasks_request parse parse_query encode guid query a =
     (let u = projr (parse a)
      in \<lparr>req_URL = u\<lparr>Path := ''/v3/apps/'' @ guid @ ''/tasks'',
                       RawQuery := encode (fold (\<lambda>(k, v) q. fold (\<lambda>vv q. Values_Add q k vv) v q)
                                             query (parse_query (RawQuery u)))\<rparr>,
          req_Method = ''GET'', req_Header = [], req_Body = NoBody\<rparr>)"

text \<open>The request the task poller sends after the envelope \<open>e\<close>: a GET to its rewritten
  self link.\<close>

definition poll_request :: "(string \<Rightarrow> error + URL) \<Rightarrow> TaskStatus \<Rightarrow> Request" where
  "poll_request parse e =
     \<lparr>req_URL = projr (parse (http_for_https (Self_Href e))), req_Method = ''GET'',
      req_Header = [], req_Body = NoBody\<rparr>"

subsection \<open>The client of the closed examples\<close>

text \<open>A client built by \<open>NewClient\<close> on the replaying transport, with the secure base
  address \<open>https://host\<close> that the constructor rewrites.\<close>

definition example_client :: "Script Client" where
  "example_client = NewClient ''https://host'' ''app-0'' ''space-0'' replay"

text \<open>A decoded task with the given name and links and every other field at its zero
  value, as the JSON decoder leaves the fields that the text does not mention.\<close>

definition named_task :: "string \<Rightarrow> (string \<rightharpoonup> Links) \<Rightarrow> Task" where
  "named_task n ls =
     \<lparr>SequenceID = 0, Name = n, Command = [], DiskInMB = 0, MemoryInMB = 0, State = [],
      DropletGuid = [], Guid = [], CreatedAt = [], UpdatedAt = [], Links = ls\<rparr>"

subsection \<open>The task poller and time\<close>

text \<open>
  CreateTask once more, with the \<open>time.Sleep(interval)\<close> of line 389 kept. Like the other
  functions of the standard library, \<open>sleep\<close> is a parameter: it acts on the state of the
  world, of which the state of the transport is a part. The sleep comes first in the
  RUNNING branch, before the self link is parsed and requested; nothing else differs
  from \<open>CreateTask_loop\<close> and \<open>CreateTask\<close>.
\<close>

fun CreateTask_sleep_loop ::
  "(int \<Rightarrow> 's \<Rightarrow> 's) \<Rightarrow> int \<Rightarrow> nat \<Rightarrow> (string \<Rightarrow> error + URL) \<Rightarrow>
   (ReadCloser \<Rightarrow> error + TaskStatus) \<Rightarrow> 's Client \<Rightarrow> Response \<Rightarrow> 's \<Rightarrow>
   ((error + unit) \<times> 's) option" where
  "CreateTask_sleep_loop sleep interval 0 parse decode c resp s = None"
| "CreateTask_sleep_loop sleep interval (Suc fuel) parse decode c resp s =
     (case decode (resp_Body resp) of
        Inl err \<Rightarrow> Some (Inl err, s)
      | Inr results \<Rightarrow>
          let self = http_for_https (Self_Href results) in
          if ts_State results = ''RUNNING'' then
            let s1 = sleep interval s in
            (case parse self of
               Inl err \<Rightarrow> Some (Inl err, s1)
             | Inr u \<Rightarrow>
                 (case doer c s1 \<lparr>req_URL = u, req_Method = ''GET'', req_Header = [],
                                   req_Body = NoBody\<rparr> of
                    (Inl err, s') \<Rightarrow> Some (Inl err, s')
                  | (Inr resp', s') \<Rightarrow>
                      CreateTask_sleep_loop sleep interval fuel parse decode c resp' s'))
          else if ts_State results = ''FAILED'' then Some (Inl TaskFailed, s)
          else Some (Inr (), s))"

definition CreateTask_sleep ::
  "(int \<Rightarrow> 's \<Rightarrow> 's) \<Rightarrow> (string \<Rightarrow> error + URL) \<Rightarrow> (ReadCloser \<Rightarrow> error + TaskStatus) \<Rightarrow>
   's Client \<Rightarrow> string \<Rightarrow> int \<Rightarrow> nat \<Rightarrow> 's \<Rightarrow> ((error + unit) \<times> 's) option" where
  "CreateTask_sleep sleep parse decode c command interval fuel s =
     (case parse (addr c) of
        Inl err \<Rightarrow> Some (Inl err, s)
      | Inr u \<Rightarrow>
          (case doer c s \<lparr>req_URL = u\<lparr>Path := ''/v3/apps/'' @ appGuid c @ ''/tasks''\<rparr>,
                           req_Method = ''POST'',
                           req_Header = [(''Content-Type'', [''application/json''])],
                           req_Body = JSON \<lparr>tr_Command = command, tr_Name = [],
                                             tr_DropletGuid = []\<rparr>\<rparr> of
             (Inl err, s') \<Rightarrow> Some (Inl err, s')
           | (Inr resp, s') \<Rightarrow>
               if StatusCode resp \<noteq> 202 then
                 Some (Inl (UnexpectedStatusCode (StatusCode resp)
                              (fst (ReadAll (resp_Body resp)))), s')
               else CreateTask_sleep_loop sleep interval fuel parse decode c resp s'))"

text \<open>
  A world with a clock. \<open>now\<close> is the time, \<open>cancel_at\<close> the instant at which the
  cancellation signal of the caller's context fires (\<open>None\<close> when it never does), and
  \<open>transport\<close> the state of the transport. \<open>time.Sleep(d)\<close> returns after \<open>d\<close>, at once
  when \<open>d\<close> is not positive, and asks no context. The context is done from the instant
  of the signal on.
\<close>

record 't Timed =
  now :: int
  cancel_at :: "int option"
  transport :: 't

definition Sleep :: "int \<Rightarrow> 't Timed \<Rightarrow> 't Timed" where
  "Sleep d w = w\<lparr>now := now w + max 0 d\<rparr>"

definition context_done :: "'t Timed \<Rightarrow> bool" where
  "context_done w = (case cancel_at w of None \<Rightarrow> False | Some t \<Rightarrow> t \<le> now w)"

text \<open>
  The replaying transport under the context that every request carries: a request made
  when the context is done is recorded and answered with the error of the context, as
  an HTTP client answers it; any other request is answered from the script. A request
  takes no time.
\<close>

definition replay_ctx :: "Script Timed Doer" where
  "replay_ctx w req =
     (if context_done w then
        (Inl (Failure ''context canceled''),
         w\<lparr>transport := (fst (transport w), snd (transport w) @ [req])\<rparr>)
      else
        (case replay (transport w) req of (r, s') \<Rightarrow> (r, w\<lparr>transport := s'\<rparr>)))"

section \<open>Properties\<close>

subsection \<open>Link rewriting\<close>

lemma strings_Replace1_prefix:
  "old \<noteq> [] \<Longrightarrow> strings_Replace1 (old @ rest) old new = new @ rest"
  by (cases old) simp_all

lemma http_for_https_prefix: "http_for_https (''https'' @ rest) = ''http'' @ rest"
  unfolding http_for_https_def by (rule strings_Replace1_prefix) simp


subsection \<open>The replaying transport\<close>

lemma replay_Cons: "replay (r # rs, log) req = (r, (rs, log @ [req]))"
  by (simp add: replay_def)

subsection \<open>The list loops on a well-formed sequence of pages\<close>





lemma ListTasks_loop_replay:
  assumes d: "doer c = replay"
  shows "list_all2 (page_response decode) resps pages \<Longrightarrow> pages \<noteq> [] \<Longrightarrow>
     list_all (\<lambda>p. Next_Href p \<noteq> [] \<and> \<not> isl (parse (Next_Href p))) (butlast pages) \<Longrightarrow>
     Next_Href (last pages) = [] \<Longrightarrow> \<not> isl (parse a) \<Longrightarrow> length pages \<le> fuel \<Longrightarrow>
     ListTasks_loop fuel parse pq enc decode c guid query a acc (map Inr resps @ rest, log) =
       Some (Inr (acc @ concat (map Resources pages)),
             (rest, log @ map (tasks_request parse pq enc guid query)
                            (a # map Next_Href (butlast pages))))"
proof (induction resps pages arbitrary: a acc log fuel rule: list_all2_induct)
  case Nil
  then show ?case by simp
next
  case (Cons r rs p ps)
  from Cons.prems(5) obtain f where fuel: "fuel = Suc f" and f: "length ps \<le> f"
    by (cases fuel) auto
  from Cons.prems(4) obtain u where u: "parse a = Inr u"
    by (cases "parse a") auto
  from Cons.hyps(1) have r: "StatusCode r = 200" "decode (resp_Body r) = Inr p"
    by (auto simp: page_response_def)
  show ?case
  proof (cases ps)
    case Nil
    with Cons.prems(3) have "Next_Href p = []" by simp
    moreover from Nil Cons.hyps(2) have "rs = []" by simp
    ultimately show ?thesis
      using u r d Nil by (simp add: fuel replay_Cons tasks_request_def Let_def)
  next
    case (Cons p' ps')
    with Cons.prems(2) have nx: "Next_Href p \<noteq> []" "\<not> isl (parse (Next_Href p))"
      by simp_all
    have step: "ListTasks_loop fuel parse pq enc decode c guid query a acc
          (map Inr (r # rs) @ rest, log) =
        ListTasks_loop f parse pq enc decode c guid query (Next_Href p) (acc @ Resources p)
          (map Inr rs @ rest, log @ [tasks_request parse pq enc guid query a])"
      using u r d nx by (simp add: fuel replay_Cons tasks_request_def Let_def)
    from Cons Cons.prems have "ps \<noteq> []"
      "list_all (\<lambda>p. Next_Href p \<noteq> [] \<and> \<not> isl (parse (Next_Href p))) (butlast ps)"
      "Next_Href (last ps) = []"
      by simp_all
    from Cons.IH[OF this nx(2) f, of "acc @ Resources p"
        "log @ [tasks_request parse pq enc guid query a]"] step Cons
    show ?thesis by simp
  qed
qed

subsection \<open>The polling loop on a sequence of status envelopes\<close>

text \<open>
  \<open>e0\<close> is the envelope of the response at hand and \<open>envs\<close> are the envelopes of the
  scripted responses. While the envelopes report RUNNING the loop polls; at the first
  other state it stops, leaving the rest of the script alone.
\<close>

lemma CreateTask_loop_replay:
  assumes d: "doer c = replay"
  shows "list_all2 (\<lambda>r e. decode (resp_Body r) = Inr e) polls envs \<Longrightarrow>
     decode (resp_Body resp) = Inr e0 \<Longrightarrow>
     list_all (\<lambda>e. ts_State e = ''RUNNING'' \<and> \<not> isl (parse (http_for_https (Self_Href e))))
       (butlast (e0 # envs)) \<Longrightarrow>
     ts_State (last (e0 # envs)) \<noteq> ''RUNNING'' \<Longrightarrow> length envs < fuel \<Longrightarrow>
     CreateTask_loop fuel parse decode c resp (map Inr polls @ rest, log) =
       Some (if ts_State (last (e0 # envs)) = ''FAILED'' then Inl TaskFailed else Inr (),
             (rest, log @ map (poll_request parse) (butlast (e0 # envs))))"
proof (induction polls envs arbitrary: resp e0 log fuel rule: list_all2_induct)
  case Nil
  then obtain f where "fuel = Suc f" by (cases fuel) auto
  with Nil show ?case by simp
next
  case (Cons r rs e es)
  from Cons.prems(4) obtain f where fuel: "fuel = Suc f" and f: "length es < f"
    by (cases fuel) auto
  from Cons.prems(2) have run: "ts_State e0 = ''RUNNING''"
    and "\<not> isl (parse (http_for_https (Self_Href e0)))"
    and rest': "list_all (\<lambda>e. ts_State e = ''RUNNING'' \<and> \<not> isl (parse (http_for_https (Self_Href e))))
       (butlast (e # es))"
    by simp_all
  then obtain u where u: "parse (http_for_https (Self_Href e0)) = Inr u"
    by (cases "parse (http_for_https (Self_Href e0))") auto
  have step: "CreateTask_loop fuel parse decode c resp (map Inr (r # rs) @ rest, log) =
      CreateTask_loop f parse decode c r (map Inr rs @ rest, log @ [poll_request parse e0])"
    using Cons.prems(1) run u d by (simp add: fuel replay_Cons poll_request_def)
  from Cons.prems(3) have "ts_State (last (e # es)) \<noteq> ''RUNNING''" by simp
  from Cons.IH[OF Cons.hyps(1) rest' this f, of "log @ [poll_request parse e0]"] step
  show ?case by simp
qed

subsection \<open>The example client\<close>

lemma example_client_simps:
  "addr example_client = ''http://host''" "appGuid example_client = ''app-0''"
  "spaceGuid example_client = ''space-0''" "doer example_client = replay"
  by (simp_all add: example_client_def NewClient_def http_for_https_def)

subsection \<open>Pagination\<close>




subsection \<open>Task polling\<close>

text \<open>
  The number of polls and the verdict. On the replaying transport, let the POST of
  CreateTask be answered with status 202. The polled envelopes are those of the
  responses to the GET requests, so the envelope of the POST reports RUNNING when there
  is any. Let the polls be answered with \<open>N\<close> envelopes in state RUNNING and then one in
  another state. Given a bound of at least \<open>N + 2\<close> rounds, CreateTask issues after the
  POST exactly \<open>N + 1\<close> GET requests, each to what \<open>http_for_https\<close> makes of the self
  link of the envelope before it, and no request after the envelope that is not
  RUNNING: the rest of the script is left. It returns the error
  "task failed" when that envelope reports FAILED and no error for any other state,
  SUCCEEDED among them. When the envelope of the POST itself is not RUNNING, the same
  verdict is given on it at once, with no GET request at all.
\<close>

theorem CreateTask_polls_until_not_running:
  assumes d: "doer c = replay" and a: "\<not> isl (parse (addr c))"
    and post: "StatusCode post = 202" "decode (resp_Body post) = Inr posted"
  shows
    "(ts_State posted \<noteq> ''RUNNING'' \<and> 0 < fuel \<longrightarrow>
        (\<exists>post_req.
           CreateTask parse decode c command fuel (Inr post # rest, log) =
             Some (if ts_State posted = ''FAILED'' then Inl TaskFailed else Inr (),
                   (rest, log @ [post_req])) \<and>
           req_Method post_req = ''POST'')) \<and>
     (ts_State posted = ''RUNNING'' \<and>
      list_all2 (\<lambda>r e. decode (resp_Body r) = Inr e) polls (running @ [final]) \<and>
      length running = N \<and> list_all (\<lambda>e. ts_State e = ''RUNNING'') running \<and>
      ts_State final \<noteq> ''RUNNING'' \<and>
      list_all (\<lambda>e. \<not> isl (parse (http_for_https (Self_Href e)))) (posted # running) \<and>
      N + 2 \<le> fuel \<longrightarrow>
        (\<exists>post_req gets.
           CreateTask parse decode c command fuel (Inr post # map Inr polls @ rest, log) =
             Some (if ts_State final = ''FAILED'' then Inl TaskFailed else Inr (),
                   (rest, log @ post_req # gets)) \<and>
           req_Method post_req = ''POST'' \<and>
           gets = map (poll_request parse) (posted # running) \<and>
           list_all (\<lambda>q. req_Method q = ''GET'') gets \<and> length gets = N + 1))"
proof (intro conjI impI)
  from a obtain u where u: "parse (addr c) = Inr u"
    by (cases "parse (addr c)") auto
  let ?post_req = "\<lparr>req_URL = u\<lparr>Path := ''/v3/apps/'' @ appGuid c @ ''/tasks''\<rparr>,
                    req_Method = ''POST'',
                    req_Header = [(''Content-Type'', [''application/json''])],
                    req_Body = JSON \<lparr>tr_Command = command, tr_Name = [],
                                      tr_DropletGuid = []\<rparr>\<rparr>"
  have enter: "CreateTask parse decode c command fuel (Inr post # rs, log) =
      CreateTask_loop fuel parse decode c post (rs, log @ [?post_req])" for rs
    using u d post(1) by (simp add: CreateTask_def replay_Cons)
  {
    assume h: "ts_State posted \<noteq> ''RUNNING'' \<and> 0 < fuel"
    have "CreateTask_loop fuel parse decode c post (map Inr [] @ rest, log @ [?post_req]) =
        Some (if ts_State (last (posted # [])) = ''FAILED'' then Inl TaskFailed else Inr (),
              (rest, (log @ [?post_req]) @ map (poll_request parse) (butlast (posted # []))))"
      using CreateTask_loop_replay[OF d, of decode "[]" "[]" post posted parse fuel rest
          "log @ [?post_req]"] post(2) h
      by simp
    with enter[of rest]
    show "\<exists>post_req.
           CreateTask parse decode c command fuel (Inr post # rest, log) =
             Some (if ts_State posted = ''FAILED'' then Inl TaskFailed else Inr (),
                   (rest, log @ [post_req])) \<and>
           req_Method post_req = ''POST''"
      by (intro exI[of _ ?post_req]) simp
  }
  {
    assume h: "ts_State posted = ''RUNNING'' \<and>
      list_all2 (\<lambda>r e. decode (resp_Body r) = Inr e) polls (running @ [final]) \<and>
      length running = N \<and> list_all (\<lambda>e. ts_State e = ''RUNNING'') running \<and>
      ts_State final \<noteq> ''RUNNING'' \<and>
      list_all (\<lambda>e. \<not> isl (parse (http_for_https (Self_Href e)))) (posted # running) \<and>
      N + 2 \<le> fuel"
    then have polls: "list_all2 (\<lambda>r e. decode (resp_Body r) = Inr e) polls (running @ [final])"
      and len: "length (running @ [final]) < fuel"
      and fin: "ts_State (last (posted # running @ [final])) \<noteq> ''RUNNING''"
      by simp_all
    from h have run:
      "list_all (\<lambda>e. ts_State e = ''RUNNING'' \<and> \<not> isl (parse (http_for_https (Self_Href e))))
         (butlast (posted # running @ [final]))"
      by (simp add: list_all_iff butlast_append)
    have "CreateTask_loop fuel parse decode c post (map Inr polls @ rest, log @ [?post_req]) =
        Some (if ts_State final = ''FAILED'' then Inl TaskFailed else Inr (),
              (rest, (log @ [?post_req]) @ map (poll_request parse) (posted # running)))"
      using CreateTask_loop_replay[OF d polls post(2) run fin len, of rest "log @ [?post_req]"]
      by (simp add: butlast_append)
    with enter[of "map Inr polls @ rest"] h
    show "\<exists>post_req gets.
           CreateTask parse decode c command fuel (Inr post # map Inr polls @ rest, log) =
             Some (if ts_State final = ''FAILED'' then Inl TaskFailed else Inr (),
                   (rest, log @ post_req # gets)) \<and>
           req_Method post_req = ''POST'' \<and>
           gets = map (poll_request parse) (posted # running) \<and>
           list_all (\<lambda>q. req_Method q = ''GET'') gets \<and> length gets = N + 1"
      by (intro exI[of _ ?post_req]) (simp add: list_all_iff poll_request_def)
  }
qed

text \<open>
  Three runs. In the first two, with \<open>N = 1\<close>, the POST and the first poll report
  RUNNING and the second poll reports SUCCEEDED and FAILED: both runs issue two GET
  requests and leave the last scripted response untouched. In the third the POST itself
  reports SUCCEEDED, and no GET is issued.
\<close>

theorem CreateTask_polls_until_not_running_witness:
  "(\<exists>post_req gets.
      CreateTask simple_Parse
        (table_decoder
           [(''running'', \<lparr>ts_State = ''RUNNING'', Self_Href = ''https://host/v3/tasks/t-1''\<rparr>),
            (''succeeded'', \<lparr>ts_State = ''SUCCEEDED'', Self_Href = ''https://host/v3/tasks/t-1''\<rparr>),
            (''failed'', \<lparr>ts_State = ''FAILED'', Self_Href = ''https://host/v3/tasks/t-1''\<rparr>)])
        example_client ''ls'' 3
        ([ok 202 ''running'', ok 200 ''running'', ok 200 ''succeeded'', ok 200 ''running''], []) =
        Some (Inr (), ([ok 200 ''running''], post_req # gets)) \<and> length gets = 2) \<and>
   (\<exists>post_req gets.
      CreateTask simple_Parse
        (table_decoder
           [(''running'', \<lparr>ts_State = ''RUNNING'', Self_Href = ''https://host/v3/tasks/t-1''\<rparr>),
            (''succeeded'', \<lparr>ts_State = ''SUCCEEDED'', Self_Href = ''https://host/v3/tasks/t-1''\<rparr>),
            (''failed'', \<lparr>ts_State = ''FAILED'', Self_Href = ''https://host/v3/tasks/t-1''\<rparr>)])
        example_client ''ls'' 3
        ([ok 202 ''running'', ok 200 ''running'', ok 200 ''failed'', ok 200 ''running''], []) =
        Some (Inl TaskFailed, ([ok 200 ''running''], post_req # gets)) \<and> length gets = 2) \<and>
   (\<exists>post_req.
      CreateTask simple_Parse
        (table_decoder
           [(''running'', \<lparr>ts_State = ''RUNNING'', Self_Href = ''https://host/v3/tasks/t-1''\<rparr>),
            (''succeeded'', \<lparr>ts_State = ''SUCCEEDED'', Self_Href = ''https://host/v3/tasks/t-1''\<rparr>),
            (''failed'', \<lparr>ts_State = ''FAILED'', Self_Href = ''https://host/v3/tasks/t-1''\<rparr>)])
        example_client ''ls'' 3 ([ok 202 ''succeeded'', ok 200 ''running''], []) =
        Some (Inr (), ([ok 200 ''running''], [post_req])))"
proof -
  let ?run = "\<lparr>ts_State = ''RUNNING'', Self_Href = ''https://host/v3/tasks/t-1''\<rparr>"
  let ?suc = "\<lparr>ts_State = ''SUCCEEDED'', Self_Href = ''https://host/v3/tasks/t-1''\<rparr>"
  let ?fai = "\<lparr>ts_State = ''FAILED'', Self_Href = ''https://host/v3/tasks/t-1''\<rparr>"
  let ?dec = "table_decoder [(''running'', ?run), (''succeeded'', ?suc), (''failed'', ?fai)]"
  let ?resp = "\<lambda>code text. \<lparr>StatusCode = code, resp_Body = \<lparr>content = text, broken = None\<rparr>\<rparr>"
  have a: "\<not> isl (simple_Parse (addr example_client))"
    by (simp add: example_client_simps simple_Parse_def)
  have dr: "?dec (resp_Body (?resp 202 ''running'')) = Inr ?run"
    and ds: "?dec (resp_Body (?resp 202 ''succeeded'')) = Inr ?suc"
    by (simp_all add: table_decoder_def)
  have links: "list_all (\<lambda>e. \<not> isl (simple_Parse (http_for_https (Self_Href e)))) [?run, ?run]"
    by (simp add: http_for_https_def simple_Parse_def)
  have s: "\<exists>post_req gets.
      CreateTask simple_Parse ?dec example_client ''ls'' 3
        ([ok 202 ''running'', ok 200 ''running'', ok 200 ''succeeded'', ok 200 ''running''], []) =
        Some (Inr (), ([ok 200 ''running''], post_req # gets)) \<and> length gets = 2"
    using CreateTask_polls_until_not_running
      [where c = example_client and parse = simple_Parse and decode = ?dec
         and post = "?resp 202 ''running''" and posted = ?run
         and polls = "[?resp 200 ''running'', ?resp 200 ''succeeded'']"
         and running = "[?run]" and final = ?suc and N = 1 and fuel = 3
         and rest = "[ok 200 ''running'']" and log = "[]" and command = "''ls''",
       OF example_client_simps(4) a _ dr, THEN conjunct2] links
    by (simp add: table_decoder_def ok_def) fastforce
  have f: "\<exists>post_req gets.
      CreateTask simple_Parse ?dec example_client ''ls'' 3
        ([ok 202 ''running'', ok 200 ''running'', ok 200 ''failed'', ok 200 ''running''], []) =
        Some (Inl TaskFailed, ([ok 200 ''running''], post_req # gets)) \<and> length gets = 2"
    using CreateTask_polls_until_not_running
      [where c = example_client and parse = simple_Parse and decode = ?dec
         and post = "?resp 202 ''running''" and posted = ?run
         and polls = "[?resp 200 ''running'', ?resp 200 ''failed'']"
         and running = "[?run]" and final = ?fai and N = 1 and fuel = 3
         and rest = "[ok 200 ''running'']" and log = "[]" and command = "''ls''",
       OF example_client_simps(4) a _ dr, THEN conjunct2] links
    by (simp add: table_decoder_def ok_def) fastforce
  have p: "\<exists>post_req.
      CreateTask simple_Parse ?dec example_client ''ls'' 3
        ([ok 202 ''succeeded'', ok 200 ''running''], []) =
        Some (Inr (), ([ok 200 ''running''], [post_req]))"
    using CreateTask_polls_until_not_running
      [where c = example_client and parse = simple_Parse and decode = ?dec
         and post = "?resp 202 ''succeeded''" and posted = ?suc and fuel = 3
         and rest = "[ok 200 ''running'']" and log = "[]" and command = "''ls''",
       OF example_client_simps(4) a _ ds, THEN conjunct1]
    by (simp add: ok_def) fastforce
  from s f p show ?thesis by blast
qed

text \<open>
  Claim C4 says that the GET requests go to the self link with its scheme normalized.
  The number of the requests and the verdict are as the claim says
  (\<open>CreateTask_polls_until_not_running\<close>). The target is what \<open>http_for_https\<close> makes of
  the self link, and that is not always the self link with its scheme normalized: an
  insecure self link whose path holds \<open>https\<close> needs no rewriting, and the poller sends
  its GET to another path.
\<close>

theorem CreateTask_polls_rewritten_path:
  "CreateTask simple_Parse
     (table_decoder
        [(''running'', \<lparr>ts_State = ''RUNNING'', Self_Href = ''http://host/v3/tasks/https-1''\<rparr>),
         (''succeeded'', \<lparr>ts_State = ''SUCCEEDED'',
                          Self_Href = ''http://host/v3/tasks/https-1''\<rparr>)])
     example_client ''ls'' 2 ([ok 202 ''running'', ok 200 ''succeeded''], []) =
   Some (Inr (),
         ([],
          [\<lparr>req_URL = \<lparr>Scheme = ''http'', Host = ''host'', Path = ''/v3/apps/app-0/tasks'',
                       RawQuery = []\<rparr>,
            req_Method = ''POST'', req_Header = [(''Content-Type'', [''application/json''])],
            req_Body = JSON \<lparr>tr_Command = ''ls'', tr_Name = [], tr_DropletGuid = []\<rparr>\<rparr>,
           \<lparr>req_URL = \<lparr>Scheme = ''http'', Host = ''host'', Path = ''/v3/tasks/http-1'',
                       RawQuery = []\<rparr>,
            req_Method = ''GET'', req_Header = [], req_Body = NoBody\<rparr>])) \<and>
   simple_Parse ''http://host/v3/tasks/https-1'' =
     Inr \<lparr>Scheme = ''http'', Host = ''host'', Path = ''/v3/tasks/https-1'', RawQuery = []\<rparr>"
  by (simp add: CreateTask_def example_client_simps numeral_2_eq_2 replay_def ok_def
      table_decoder_def simple_Parse_def http_for_https_def)

subsection \<open>Query parameters of ListTasks\<close>

text \<open>
  Claim C3, as stated, fails: ListTasks treats a later request like the first one. With
  the parameter \<open>names=x\<close> and a first page whose next link is
  \<open>http://host/v3/apps/app-1/tasks?page=2\<close>, the second request carries the query
  \<open>names=x&page=2\<close>, not the query \<open>page=2\<close> of the next link.
\<close>

theorem ListTasks_next_link_not_verbatim:
  "ListTasks simple_Parse simple_ParseQuery (keyed_Encode [''names'', ''page''])
     (table_decoder
        [(''page-1'', \<lparr>Next_Href = ''http://host/v3/apps/app-1/tasks?page=2'',
                       Resources = [named_task ''task-1'' Map.empty]\<rparr>),
         (''page-2'', \<lparr>Next_Href = [], Resources = [named_task ''task-2'' Map.empty]\<rparr>)])
     example_client ''app-1'' [(''names'', [''x''])] 2
     ([ok 200 ''page-1'', ok 200 ''page-2''], []) =
   Some (Inr [named_task ''task-1'' Map.empty, named_task ''task-2'' Map.empty],
         ([],
          [\<lparr>req_URL = \<lparr>Scheme = ''http'', Host = ''host'', Path = ''/v3/apps/app-1/tasks'',
                       RawQuery = ''names=x''\<rparr>,
            req_Method = ''GET'', req_Header = [], req_Body = NoBody\<rparr>,
           \<lparr>req_URL = \<lparr>Scheme = ''http'', Host = ''host'', Path = ''/v3/apps/app-1/tasks'',
                       RawQuery = ''names=x&page=2''\<rparr>,
            req_Method = ''GET'', req_Header = [], req_Body = NoBody\<rparr>])) \<and>
   simple_Parse ''http://host/v3/apps/app-1/tasks?page=2'' =
     Inr \<lparr>Scheme = ''http'', Host = ''host'', Path = ''/v3/apps/app-1/tasks'',
           RawQuery = ''page=2''\<rparr>"
  by (simp add: ListTasks_def example_client_simps numeral_2_eq_2 replay_def ok_def
      table_decoder_def simple_Parse_def simple_ParseQuery_def split_on_def keyed_Encode_def
      Values_Add_def)

text \<open>
  Claim C3, amended. On a well-formed sequence of pages every request of ListTasks, the
  first and each later one, is built in the same way from the address at hand (the base
  address of the client first, then the next link of the page before, as decoded): the
  path is set to the task list of the app, and the query is the address's own query
  with the caller's parameters added and encoded again.
\<close>

theorem ListTasks_builds_every_request_alike:
  assumes d: "doer c = replay" and a: "\<not> isl (parse (addr c))"
    and wf: "well_formed_pages parse (\<lambda>h. h) decode resps pages"
    and fuel: "length pages \<le> fuel"
  shows "ListTasks parse pq enc decode c guid query fuel (map Inr resps @ rest, log) =
           Some (Inr (concat (map Resources pages)),
                 (rest, log @ map (tasks_request parse pq enc guid query)
                                (addr c # map Next_Href (butlast pages))))"
  using ListTasks_loop_replay[OF d, of decode resps pages parse "addr c" fuel pq enc guid query
      "[]" rest log] a wf fuel
  by (simp add: well_formed_pages_def ListTasks_def)

theorem ListTasks_builds_every_request_alike_witness:
  "ListTasks simple_Parse simple_ParseQuery (keyed_Encode [''names'', ''page''])
     (table_decoder
        [(''page-1'', \<lparr>Next_Href = ''http://host/v3/apps/app-1/tasks?page=2'',
                       Resources = [named_task ''task-1'' Map.empty]\<rparr>),
         (''page-2'', \<lparr>Next_Href = [], Resources = [named_task ''task-2'' Map.empty]\<rparr>)])
     example_client ''app-1'' [(''names'', [''x''])] 2
     ([ok 200 ''page-1'', ok 200 ''page-2''], []) =
   Some (Inr [named_task ''task-1'' Map.empty, named_task ''task-2'' Map.empty],
         ([], map (tasks_request simple_Parse simple_ParseQuery
                     (keyed_Encode [''names'', ''page'']) ''app-1'' [(''names'', [''x''])])
                [''http://host'', ''http://host/v3/apps/app-1/tasks?page=2'']))"
proof -
  let ?t1 = "\<lparr>Next_Href = ''http://host/v3/apps/app-1/tasks?page=2'',
              Resources = [named_task ''task-1'' Map.empty]\<rparr>"
  let ?t2 = "\<lparr>Next_Href = [], Resources = [named_task ''task-2'' Map.empty]\<rparr>"
  let ?r1 = "\<lparr>StatusCode = 200, resp_Body = \<lparr>content = ''page-1'', broken = None\<rparr>\<rparr>"
  let ?r2 = "\<lparr>StatusCode = 200, resp_Body = \<lparr>content = ''page-2'', broken = None\<rparr>\<rparr>"
  have a: "\<not> isl (simple_Parse (addr example_client))"
    by (simp add: example_client_simps simple_Parse_def)
  have wf: "well_formed_pages simple_Parse (\<lambda>h. h)
              (table_decoder [(''page-1'', ?t1), (''page-2'', ?t2)]) [?r1, ?r2] [?t1, ?t2]"
    by (simp add: well_formed_pages_def page_response_def table_decoder_def simple_Parse_def)
  show ?thesis
    using ListTasks_builds_every_request_alike
      [OF example_client_simps(4) a wf, of 2 simple_ParseQuery
         "keyed_Encode [''names'', ''page'']" "''app-1''" "[(''names'', [''x''])]" "[]" "[]"]
    by (simp add: ok_def example_client_simps)
qed

subsection \<open>The default app\<close>

text \<open>
  Claim C10. A client built by \<open>NewClient\<close> with the app \<open>app\<close> sends the one request of
  RunTask and of GetEnvironmentVariables to the endpoint of \<open>app\<close> when the app argument
  is empty, and to the endpoint of the argument otherwise.
\<close>

theorem empty_app_guid_means_default:
  assumes u: "parse (http_for_https a) = Inr u"
  shows "snd (snd (RunTask parse decode (NewClient a app space replay) command name droplet
                     guid (rs, log))) =
           log @ [\<lparr>req_URL = u\<lparr>Path := ''/v3/apps/'' @ (if guid = [] then app else guid)
                                            @ ''/tasks''\<rparr>,
                   req_Method = ''POST'',
                   req_Header = [(''Content-Type'', [''application/json''])],
                   req_Body = JSON \<lparr>tr_Command = command, tr_Name = name,
                                     tr_DropletGuid = droplet\<rparr>\<rparr>] \<and>
         snd (snd (GetEnvironmentVariables parse vdecode (NewClient a app space replay)
                     guid (rs, log))) =
           log @ [\<lparr>req_URL = u\<lparr>Path := ''/v3/apps/'' @ (if guid = [] then app else guid)
                                            @ ''/environment_variables''\<rparr>,
                   req_Method = ''GET'',
                   req_Header = [(''Accept'', [''application/json''])],
                   req_Body = EmptyBody\<rparr>]"
  using u
  by (cases rs)
     (auto simp: RunTask_def GetEnvironmentVariables_def NewClient_def replay_def Let_def
           split: sum.splits)

theorem empty_app_guid_means_default_witness:
  "map (Path \<circ> req_URL)
     (snd (snd (RunTask simple_Parse (table_decoder [])
                  (NewClient ''https://host'' ''app-0'' ''space-0'' replay)
                  ''ls'' ''list'' [] [] ([], [])))) = [''/v3/apps/app-0/tasks''] \<and>
   map (Path \<circ> req_URL)
     (snd (snd (GetEnvironmentVariables simple_Parse (table_decoder [])
                  (NewClient ''https://host'' ''app-0'' ''space-0'' replay)
                  [] ([], [])))) = [''/v3/apps/app-0/environment_variables'']"
proof -
  have u: "simple_Parse (http_for_https ''https://host'') =
             Inr \<lparr>Scheme = ''http'', Host = ''host'', Path = [], RawQuery = []\<rparr>"
    by (simp add: http_for_https_def simple_Parse_def)
  show ?thesis
    using empty_app_guid_means_default
      [where parse = simple_Parse and a = "''https://host''" and app = "''app-0''"
         and space = "''space-0''" and decode = "table_decoder []"
         and vdecode = "table_decoder []" and command = "''ls''" and name = "''list''"
         and droplet = "[]" and guid = "[]" and rs = "[]" and log = "[]", OF u]
    by simp
qed

subsection \<open>Link rewriting at a concrete address\<close>

text \<open>
  Claim C2 says that only a leading \<open>https\<close> is rewritten and that a string not starting
  with it is left alone. \<open>http_for_https\<close> rewrites the leftmost occurrence wherever it
  stands (\<open>http_for_https_prefix\<close> covers the leading one): an insecure address whose path
  holds \<open>https\<close> comes back with its path changed.
\<close>

theorem http_for_https_rewrites_inside_path:
  "http_for_https ''http://host/https-docs'' = ''http://host/http-docs''"
  by (simp add: http_for_https_def)

subsection \<open>What ListTasks leaves as decoded\<close>

text \<open>
  GetTask and RunTask return the task that they decoded from a response, with every
  link of its map rewritten and every empty method set to GET.
\<close>

lemma GetTask_links:
  assumes "GetTask parse decode c guid s = (Inr t, s')"
  shows "\<exists>(resp :: Response) task.
           decode (resp_Body resp) = Inr task \<and>
           t = task\<lparr>Links := \<lambda>k. map_option
                                 (\<lambda>l. l\<lparr>Href := http_for_https (Href l),
                                         Method := (if Method l = [] then ''GET''
                                                    else Method l)\<rparr>)
                                 (Links task k)\<rparr>"
proof -
  from assms obtain resp :: Response and task :: Task where
    "decode (resp_Body resp) = Inr task"
    "t = task\<lparr>Links := \<lambda>k. map_option
                            (\<lambda>l. l\<lparr>Href := http_for_https (Href l),
                                    Method := (if Method l = [] then ''GET''
                                               else Method l)\<rparr>)
                            (Links task k)\<rparr>"
    by (auto simp: GetTask_def split: sum.splits prod.splits if_splits)
  then show ?thesis by (intro exI[of _ resp] exI[of _ task] conjI)
qed

lemma RunTask_links:
  assumes "RunTask parse decode c command name droplet guid s = (Inr t, s')"
  shows "\<exists>(resp :: Response) task.
           decode (resp_Body resp) = Inr task \<and>
           t = task\<lparr>Links := \<lambda>k. map_option
                                 (\<lambda>l. l\<lparr>Href := http_for_https (Href l),
                                         Method := (if Method l = [] then ''GET''
                                                    else Method l)\<rparr>)
                                 (Links task k)\<rparr>"
proof -
  from assms obtain resp :: Response and task :: Task where
    "decode (resp_Body resp) = Inr task"
    "t = task\<lparr>Links := \<lambda>k. map_option
                            (\<lambda>l. l\<lparr>Href := http_for_https (Href l),
                                    Method := (if Method l = [] then ''GET''
                                               else Method l)\<rparr>)
                            (Links task k)\<rparr>"
    by (auto simp: RunTask_def Let_def split: sum.splits prod.splits if_splits)
  then show ?thesis by (intro exI[of _ resp] exI[of _ task] conjI)
qed

text \<open>
  Claim C5 says that every list operation rewrites the next link before following it.
  Processes does; ListTasks follows the link as decoded. On a first page whose next link
  is secure, the second request of Processes goes to the insecure scheme and the second
  request of ListTasks to the secure one.
\<close>

theorem ListTasks_follows_secure_next_link:
  "Processes simple_Parse
     (table_decoder
        [(''page-1'', \<lparr>Next_Href = ''https://host/v3/apps/app-1/processes?page=2'',
                       Resources = [''proc-1'']\<rparr>),
         (''page-2'', \<lparr>Next_Href = [], Resources = [''proc-2'']\<rparr>)])
     example_client ''app-1'' 2 ([ok 200 ''page-1'', ok 200 ''page-2''], []) =
   Some (Inr [''proc-1'', ''proc-2''],
         ([],
          [\<lparr>req_URL = \<lparr>Scheme = ''http'', Host = ''host'',
                       Path = ''/v3/apps/app-1/processes'', RawQuery = []\<rparr>,
            req_Method = ''GET'', req_Header = [], req_Body = NoBody\<rparr>,
           \<lparr>req_URL = \<lparr>Scheme = ''http'', Host = ''host'',
                       Path = ''/v3/apps/app-1/processes'', RawQuery = ''page=2''\<rparr>,
            req_Method = ''GET'', req_Header = [], req_Body = NoBody\<rparr>])) \<and>
   ListTasks simple_Parse simple_ParseQuery (keyed_Encode [''page''])
     (table_decoder
        [(''page-1'', \<lparr>Next_Href = ''https://host/v3/apps/app-1/tasks?page=2'',
                       Resources = [named_task ''task-1'' Map.empty]\<rparr>),
         (''page-2'', \<lparr>Next_Href = [], Resources = [named_task ''task-2'' Map.empty]\<rparr>)])
     example_client ''app-1'' [] 2 ([ok 200 ''page-1'', ok 200 ''page-2''], []) =
   Some (Inr [named_task ''task-1'' Map.empty, named_task ''task-2'' Map.empty],
         ([],
          [\<lparr>req_URL = \<lparr>Scheme = ''http'', Host = ''host'', Path = ''/v3/apps/app-1/tasks'',
                       RawQuery = []\<rparr>,
            req_Method = ''GET'', req_Header = [], req_Body = NoBody\<rparr>,
           \<lparr>req_URL = \<lparr>Scheme = ''https'', Host = ''host'', Path = ''/v3/apps/app-1/tasks'',
                       RawQuery = ''page=2''\<rparr>,
            req_Method = ''GET'', req_Header = [], req_Body = NoBody\<rparr>]))"
  by (simp add: Processes_def ListTasks_def example_client_simps numeral_2_eq_2 replay_def
      ok_def table_decoder_def simple_Parse_def simple_ParseQuery_def split_on_def
      keyed_Encode_def Values_Add_def http_for_https_def)

text \<open>
  Claim C6 says that the link map of every returned task is rewritten, by ListTasks as
  by GetTask and RunTask. For a task whose \<open>self\<close> link is secure and has no method,
  GetTask returns the link with the insecure scheme and the method GET, and ListTasks
  returns it as decoded.
\<close>

theorem ListTasks_returns_links_as_decoded:
  "(case fst (GetTask simple_Parse
                (table_decoder
                   [(''task-1'', named_task ''task-1''
                       [''self'' \<mapsto> \<lparr>Href = ''https://host/v3/tasks/t-1'', Method = []\<rparr>])])
                example_client ''t-1'' ([ok 200 ''task-1''], [])) of
      Inl err \<Rightarrow> None
    | Inr t \<Rightarrow> Links t ''self'') =
     Some \<lparr>Href = ''http://host/v3/tasks/t-1'', Method = ''GET''\<rparr> \<and>
   (case ListTasks simple_Parse simple_ParseQuery (keyed_Encode [''page''])
           (table_decoder
              [(''page-1'',
                \<lparr>Next_Href = [],
                 Resources = [named_task ''task-1''
                    [''self'' \<mapsto> \<lparr>Href = ''https://host/v3/tasks/t-1'', Method = []\<rparr>]]\<rparr>)])
           example_client ''app-1'' [] 1 ([ok 200 ''page-1''], []) of
      Some (Inr ts, s) \<Rightarrow> map (\<lambda>t. Links t ''self'') ts
    | _ \<Rightarrow> []) =
     [Some \<lparr>Href = ''https://host/v3/tasks/t-1'', Method = []\<rparr>]"
  by (simp add: GetTask_def ListTasks_def example_client_simps replay_def
      ok_def table_decoder_def simple_Parse_def simple_ParseQuery_def split_on_def
      keyed_Encode_def Values_Add_def http_for_https_def named_task_def)

subsection \<open>Empty results\<close>

text \<open>
  Claim C7, as stated, fails for GetEnvironmentVariables, which has no check for an
  empty result: on a 200 response whose body has no \<open>var\<close> field it returns the empty
  map and no error.
\<close>

theorem GetEnvironmentVariables_returns_empty_map:
  "fst (GetEnvironmentVariables simple_Parse (table_decoder [(''{}'', Map.empty)])
          example_client ''app-1'' ([ok 200 ''{}''], [])) = Inr Map.empty"
  by (simp add: GetEnvironmentVariables_def example_client_simps replay_def ok_def
      table_decoder_def simple_Parse_def)

text \<open>
  Claim C7, amended. A 200 response yields the error "empty results" when GetAppGuid
  decodes no resource, when GetDropletGuid decodes an empty guid, and when
  GetPackageGuid decodes an empty package link from its first response or an empty guid
  or an empty download link from its second. GetEnvironmentVariables returns the decoded
  map of variables as it is, empty or not.
\<close>

theorem empty_results_of_lookups:
  assumes d: "doer c = replay" and s: "StatusCode resp = 200"
  shows
    "(\<not> isl (parse (addr c @ ''/v2/apps?q=name%3A'' @ appName @ ''&q=space_guid%3A''
                      @ spaceGuid c)) \<and>
      adecode (resp_Body resp) = Inr [] \<longrightarrow>
        fst (GetAppGuid parse adecode c appName (Inr resp # rs, log)) = Inl EmptyResults) \<and>
     (\<not> isl (parse (addr c @ ''/v3/apps/'' @ guid @ ''/droplets/current'')) \<and>
      sdecode (resp_Body resp) = Inr [] \<longrightarrow>
        fst (GetDropletGuid parse sdecode c guid (Inr resp # rs, log)) = Inl EmptyResults \<and>
        fst (GetPackageGuid parse sdecode gdecode c guid (Inr resp # rs, log)) =
          Inl EmptyResults) \<and>
     (\<not> isl (parse (addr c @ ''/v3/apps/'' @ guid @ ''/droplets/current'')) \<and>
      StatusCode droplet = 200 \<and> sdecode (resp_Body droplet) = Inr href \<and> href \<noteq> [] \<and>
      \<not> isl (parse (http_for_https href)) \<and> gdecode (resp_Body resp) = Inr g \<and>
      (pkg_Guid g = [] \<or> Download_Href g = []) \<longrightarrow>
        fst (GetPackageGuid parse sdecode gdecode c guid (Inr droplet # Inr resp # rs, log)) =
          Inl EmptyResults) \<and>
     (\<not> isl (parse (addr c)) \<and> vdecode (resp_Body resp) = Inr vars \<longrightarrow>
        fst (GetEnvironmentVariables parse vdecode c guid (Inr resp # rs, log)) = Inr vars)"
proof (intro conjI impI)
  assume "\<not> isl (parse (addr c @ ''/v2/apps?q=name%3A'' @ appName @ ''&q=space_guid%3A''
                      @ spaceGuid c)) \<and> adecode (resp_Body resp) = Inr []"
  then show "fst (GetAppGuid parse adecode c appName (Inr resp # rs, log)) = Inl EmptyResults"
    using d s
    by (cases "parse (addr c @ ''/v2/apps?q=name%3A'' @ appName @ ''&q=space_guid%3A''
                      @ spaceGuid c)")
       (simp_all add: GetAppGuid_def replay_Cons)
next
  assume h: "\<not> isl (parse (addr c @ ''/v3/apps/'' @ guid @ ''/droplets/current'')) \<and>
      sdecode (resp_Body resp) = Inr []"
  then show "fst (GetDropletGuid parse sdecode c guid (Inr resp # rs, log)) = Inl EmptyResults"
    using d s
    by (cases "parse (addr c @ ''/v3/apps/'' @ guid @ ''/droplets/current'')")
       (simp_all add: GetDropletGuid_def replay_Cons)
  from h show "fst (GetPackageGuid parse sdecode gdecode c guid (Inr resp # rs, log)) =
      Inl EmptyResults"
    using d s
    by (cases "parse (addr c @ ''/v3/apps/'' @ guid @ ''/droplets/current'')")
       (simp_all add: GetPackageGuid_def replay_Cons)
next
  assume h: "\<not> isl (parse (addr c @ ''/v3/apps/'' @ guid @ ''/droplets/current'')) \<and>
      StatusCode droplet = 200 \<and> sdecode (resp_Body droplet) = Inr href \<and> href \<noteq> [] \<and>
      \<not> isl (parse (http_for_https href)) \<and> gdecode (resp_Body resp) = Inr g \<and>
      (pkg_Guid g = [] \<or> Download_Href g = [])"
  then obtain u where u: "parse (addr c @ ''/v3/apps/'' @ guid @ ''/droplets/current'') = Inr u"
    by (cases "parse (addr c @ ''/v3/apps/'' @ guid @ ''/droplets/current'')") auto
  from h obtain u2 where u2: "parse (http_for_https href) = Inr u2"
    by (cases "parse (http_for_https href)") auto
  from h u u2 d s
  show "fst (GetPackageGuid parse sdecode gdecode c guid (Inr droplet # Inr resp # rs, log)) =
      Inl EmptyResults"
    by (auto simp: GetPackageGuid_def replay_Cons)
next
  assume "\<not> isl (parse (addr c)) \<and> vdecode (resp_Body resp) = Inr vars"
  then show "fst (GetEnvironmentVariables parse vdecode c guid (Inr resp # rs, log)) = Inr vars"
    using d s
    by (cases "parse (addr c)")
       (simp_all add: GetEnvironmentVariables_def replay_Cons Let_def)
qed

text \<open>
  Responses with status 200 whose decoded field is empty: no resource for GetAppGuid,
  no guid for GetDropletGuid, no package link and then no guid for GetPackageGuid; and
  a map with one variable for GetEnvironmentVariables.
\<close>

theorem empty_results_of_lookups_witness:
  "fst (GetAppGuid simple_Parse (table_decoder [(''empty'', [])]) example_client ''app''
          ([ok 200 ''empty''], [])) = Inl EmptyResults \<and>
   fst (GetDropletGuid simple_Parse (table_decoder [(''empty'', []), (''droplet'', ''https://host/v3/packages/p-1'')])
          example_client ''app-1'' ([ok 200 ''empty''], [])) = Inl EmptyResults \<and>
   fst (GetPackageGuid simple_Parse (table_decoder [(''empty'', []), (''droplet'', ''https://host/v3/packages/p-1'')])
          (table_decoder [(''empty'', \<lparr>pkg_Guid = [], Download_Href = []\<rparr>)])
          example_client ''app-1'' ([ok 200 ''empty''], [])) = Inl EmptyResults \<and>
   fst (GetPackageGuid simple_Parse (table_decoder [(''empty'', []), (''droplet'', ''https://host/v3/packages/p-1'')])
          (table_decoder [(''empty'', \<lparr>pkg_Guid = [], Download_Href = []\<rparr>)])
          example_client ''app-1'' ([ok 200 ''droplet'', ok 200 ''empty''], [])) =
     Inl EmptyResults \<and>
   fst (GetEnvironmentVariables simple_Parse (table_decoder [(''empty'', [''K'' \<mapsto> ''v''])])
          example_client ''app-1'' ([ok 200 ''empty''], [])) = Inr [''K'' \<mapsto> ''v'']"
  using empty_results_of_lookups
    [where c = example_client and parse = simple_Parse
       and resp = "\<lparr>StatusCode = 200, resp_Body = \<lparr>content = ''empty'', broken = None\<rparr>\<rparr>"
       and droplet = "\<lparr>StatusCode = 200, resp_Body = \<lparr>content = ''droplet'', broken = None\<rparr>\<rparr>"
       and adecode = "table_decoder [(''empty'', [])]"
       and sdecode = "table_decoder [(''empty'', []), (''droplet'', ''https://host/v3/packages/p-1'')]"
       and gdecode = "table_decoder [(''empty'', \<lparr>pkg_Guid = [], Download_Href = []\<rparr>)]"
       and vdecode = "table_decoder [(''empty'', [''K'' \<mapsto> ''v''])]"
       and href = "''https://host/v3/packages/p-1''"
       and g = "\<lparr>pkg_Guid = [], Download_Href = []\<rparr>"
       and vars = "[''K'' \<mapsto> ''v'']"
       and appName = "''app''" and guid = "''app-1''" and rs = "[]" and log = "[]",
     OF example_client_simps(4)]
  by (simp add: ok_def example_client_simps table_decoder_def simple_Parse_def
      http_for_https_def)

text \<open>
  The check of GetAppGuid is on the list of resources only, and the guid of the first
  resource is returned as decoded: a 200 response with one resource that has no guid
  gives the empty guid and no error, where GetDropletGuid and GetPackageGuid give
  "empty results".
\<close>

lemma GetAppGuid_returns_first_guid_as_decoded:
  "fst (GetAppGuid simple_Parse (table_decoder [(''one'', [[]])]) example_client ''app''
          ([ok 200 ''one''], [])) = Inr []"
  by (simp add: GetAppGuid_def example_client_simps replay_def ok_def table_decoder_def
      simple_Parse_def)

subsection \<open>Unexpected status codes\<close>

text \<open>
  The polls of CreateTask are the one place where a response's status code is not
  looked at: a poll answered with status 500 and an envelope that is neither RUNNING nor
  FAILED ends the task without an error.
\<close>

lemma CreateTask_poll_status_not_checked:
  "CreateTask simple_Parse
     (table_decoder
        [(''running'', \<lparr>ts_State = ''RUNNING'', Self_Href = ''https://host/v3/tasks/t-1''\<rparr>),
         (''error'', \<lparr>ts_State = [], Self_Href = []\<rparr>)])
     example_client ''ls'' 2 ([ok 202 ''running'', ok 500 ''error''], []) =
   Some (Inr (),
         ([],
          [\<lparr>req_URL = \<lparr>Scheme = ''http'', Host = ''host'', Path = ''/v3/apps/app-0/tasks'',
                       RawQuery = []\<rparr>,
            req_Method = ''POST'', req_Header = [(''Content-Type'', [''application/json''])],
            req_Body = JSON \<lparr>tr_Command = ''ls'', tr_Name = [], tr_DropletGuid = []\<rparr>\<rparr>,
           \<lparr>req_URL = \<lparr>Scheme = ''http'', Host = ''host'', Path = ''/v3/tasks/t-1'',
                       RawQuery = []\<rparr>,
            req_Method = ''GET'', req_Header = [], req_Body = NoBody\<rparr>]))"
  by (simp add: CreateTask_def example_client_simps numeral_2_eq_2 replay_def ok_def
      table_decoder_def simple_Parse_def http_for_https_def)

text \<open>
  Claim C8, as stated, fails where the body of the response cannot be read: GetAppGuid
  (as GetDropletGuid and GetPackageGuid) then returns the error of the read, which holds
  neither the status code nor the body.
\<close>

theorem GetAppGuid_read_error_replaces_status:
  "fst (GetAppGuid simple_Parse (table_decoder []) example_client ''app''
          ([Inr \<lparr>StatusCode = 500,
                  resp_Body = \<lparr>content = ''partial'',
                               broken = Some (Failure ''unexpected EOF'')\<rparr>\<rparr>], [])) =
     Inl (Failure ''unexpected EOF'')"
  by (simp add: GetAppGuid_def example_client_simps replay_def ReadAll_def simple_Parse_def)

text \<open>
  Claim C8, amended. The polls of CreateTask apart, every response whose status code
  differs from the required one (200; 202 for the POST of CreateTask and of RunTask)
  ends the operation at once with an error: the transport is left as it is after that
  one request, the rest of the script untouched. The list loops are taken at any round,
  that is at any address and accumulator. In Processes, ProcessStats, ListTasks,
  CreateTask, GetTask, RunTask and GetEnvironmentVariables the error holds the status
  code and the bytes read from the body. In GetAppGuid, GetDropletGuid and
  GetPackageGuid it holds the status code and the body when the body could be read, and
  is the error of the read otherwise.
\<close>

theorem unexpected_status_is_an_error:
  assumes d: "doer c = replay"
  shows
    "(StatusCode resp \<noteq> 200 \<and> \<not> isl (parse a) \<longrightarrow>
        (\<exists>req. Processes_loop (Suc fuel) parse pdecode c guid a processes (Inr resp # rs, log) =
                 Some (Inl (UnexpectedStatusCode (StatusCode resp) (content (resp_Body resp))),
                       (rs, log @ [req]))) \<and>
        (\<exists>req. ProcessStats_loop (Suc fuel) parse sdecode c guid a stats (Inr resp # rs, log) =
                 Some (Inl (UnexpectedStatusCode (StatusCode resp) (content (resp_Body resp))),
                       (rs, log @ [req]))) \<and>
        (\<exists>req. ListTasks_loop (Suc fuel) parse pq enc tdecode c guid query a tasks
                   (Inr resp # rs, log) =
                 Some (Inl (UnexpectedStatusCode (StatusCode resp) (content (resp_Body resp))),
                       (rs, log @ [req])))) \<and>
     (StatusCode resp \<noteq> 200 \<and> \<not> isl (parse (addr c)) \<longrightarrow>
        (\<exists>req. GetTask parse kdecode c guid (Inr resp # rs, log) =
                 (Inl (UnexpectedStatusCode (StatusCode resp) (content (resp_Body resp))),
                  (rs, log @ [req]))) \<and>
        (\<exists>req. GetEnvironmentVariables parse vdecode c guid (Inr resp # rs, log) =
                 (Inl (UnexpectedStatusCode (StatusCode resp) (content (resp_Body resp))),
                  (rs, log @ [req])))) \<and>
     (StatusCode resp \<noteq> 202 \<and> \<not> isl (parse (addr c)) \<longrightarrow>
        (\<exists>req. CreateTask parse cdecode c command fuel (Inr resp # rs, log) =
                 Some (Inl (UnexpectedStatusCode (StatusCode resp) (content (resp_Body resp))),
                       (rs, log @ [req]))) \<and>
        (\<exists>req. RunTask parse kdecode c command name droplet guid (Inr resp # rs, log) =
                 (Inl (UnexpectedStatusCode (StatusCode resp) (content (resp_Body resp))),
                  (rs, log @ [req])))) \<and>
     (StatusCode resp \<noteq> 200 \<and>
      \<not> isl (parse (addr c @ ''/v2/apps?q=name%3A'' @ appName @ ''&q=space_guid%3A''
                      @ spaceGuid c)) \<longrightarrow>
        (\<exists>req. GetAppGuid parse adecode c appName (Inr resp # rs, log) =
                 (Inl (case broken (resp_Body resp) of
                         Some err \<Rightarrow> err
                       | None \<Rightarrow> UnexpectedResponse (StatusCode resp)
                                   (content (resp_Body resp))),
                  (rs, log @ [req])))) \<and>
     (StatusCode resp \<noteq> 200 \<and>
      \<not> isl (parse (addr c @ ''/v3/apps/'' @ guid @ ''/droplets/current'')) \<longrightarrow>
        (\<exists>req. GetDropletGuid parse ddecode c guid (Inr resp # rs, log) =
                 (Inl (case broken (resp_Body resp) of
                         Some err \<Rightarrow> err
                       | None \<Rightarrow> UnexpectedResponse (StatusCode resp)
                                   (content (resp_Body resp))),
                  (rs, log @ [req]))) \<and>
        (\<exists>req. GetPackageGuid parse ddecode gdecode c guid (Inr resp # rs, log) =
                 (Inl (case broken (resp_Body resp) of
                         Some err \<Rightarrow> err
                       | None \<Rightarrow> UnexpectedResponse (StatusCode resp)
                                   (content (resp_Body resp))),
                  (rs, log @ [req])))) \<and>
     (StatusCode resp \<noteq> 200 \<and>
      \<not> isl (parse (addr c @ ''/v3/apps/'' @ guid @ ''/droplets/current'')) \<and>
      StatusCode dresp = 200 \<and> ddecode (resp_Body dresp) = Inr href \<and> href \<noteq> [] \<and>
      \<not> isl (parse (http_for_https href)) \<longrightarrow>
        (\<exists>req1 req2.
           GetPackageGuid parse ddecode gdecode c guid (Inr dresp # Inr resp # rs, log) =
             (Inl (case broken (resp_Body resp) of
                     Some err \<Rightarrow> err
                   | None \<Rightarrow> UnexpectedResponse (StatusCode resp)
                               (content (resp_Body resp))),
              (rs, log @ [req1, req2]))))"
proof (intro conjI impI)
  assume h: "StatusCode resp \<noteq> 200 \<and> \<not> isl (parse a)"
  then obtain u where u: "parse a = Inr u" by (cases "parse a") auto
  from h u d
  show "\<exists>req. Processes_loop (Suc fuel) parse pdecode c guid a processes (Inr resp # rs, log) =
          Some (Inl (UnexpectedStatusCode (StatusCode resp) (content (resp_Body resp))),
                (rs, log @ [req]))"
    by (simp add: replay_Cons ReadAll_def)
  from h u d
  show "\<exists>req. ProcessStats_loop (Suc fuel) parse sdecode c guid a stats (Inr resp # rs, log) =
          Some (Inl (UnexpectedStatusCode (StatusCode resp) (content (resp_Body resp))),
                (rs, log @ [req]))"
    by (simp add: replay_Cons ReadAll_def)
  from h u d
  show "\<exists>req. ListTasks_loop (Suc fuel) parse pq enc tdecode c guid query a tasks
            (Inr resp # rs, log) =
          Some (Inl (UnexpectedStatusCode (StatusCode resp) (content (resp_Body resp))),
                (rs, log @ [req]))"
    by (simp add: replay_Cons ReadAll_def Let_def)
next
  assume h: "StatusCode resp \<noteq> 200 \<and> \<not> isl (parse (addr c))"
  then obtain u where u: "parse (addr c) = Inr u" by (cases "parse (addr c)") auto
  from h u d
  show "\<exists>req. GetTask parse kdecode c guid (Inr resp # rs, log) =
          (Inl (UnexpectedStatusCode (StatusCode resp) (content (resp_Body resp))),
           (rs, log @ [req]))"
    by (simp add: GetTask_def replay_Cons ReadAll_def)
  from h u d
  show "\<exists>req. GetEnvironmentVariables parse vdecode c guid (Inr resp # rs, log) =
          (Inl (UnexpectedStatusCode (StatusCode resp) (content (resp_Body resp))),
           (rs, log @ [req]))"
    by (simp add: GetEnvironmentVariables_def replay_Cons ReadAll_def Let_def)
next
  assume h: "StatusCode resp \<noteq> 202 \<and> \<not> isl (parse (addr c))"
  then obtain u where u: "parse (addr c) = Inr u" by (cases "parse (addr c)") auto
  from h u d
  show "\<exists>req. CreateTask parse cdecode c command fuel (Inr resp # rs, log) =
          Some (Inl (UnexpectedStatusCode (StatusCode resp) (content (resp_Body resp))),
                (rs, log @ [req]))"
    by (simp add: CreateTask_def replay_Cons ReadAll_def)
  from h u d
  show "\<exists>req. RunTask parse kdecode c command name droplet guid (Inr resp # rs, log) =
          (Inl (UnexpectedStatusCode (StatusCode resp) (content (resp_Body resp))),
           (rs, log @ [req]))"
    by (simp add: RunTask_def replay_Cons ReadAll_def Let_def)
next
  assume h: "StatusCode resp \<noteq> 200 \<and>
      \<not> isl (parse (addr c @ ''/v2/apps?q=name%3A'' @ appName @ ''&q=space_guid%3A''
                      @ spaceGuid c))"
  then obtain u where u: "parse (addr c @ ''/v2/apps?q=name%3A'' @ appName @ ''&q=space_guid%3A''
                      @ spaceGuid c) = Inr u"
    by (cases "parse (addr c @ ''/v2/apps?q=name%3A'' @ appName @ ''&q=space_guid%3A''
                      @ spaceGuid c)") auto
  from h u d
  show "\<exists>req. GetAppGuid parse adecode c appName (Inr resp # rs, log) =
          (Inl (case broken (resp_Body resp) of
                  Some err \<Rightarrow> err
                | None \<Rightarrow> UnexpectedResponse (StatusCode resp) (content (resp_Body resp))),
           (rs, log @ [req]))"
    by (simp add: GetAppGuid_def replay_Cons ReadAll_def split: option.splits)
next
  assume h: "StatusCode resp \<noteq> 200 \<and>
      \<not> isl (parse (addr c @ ''/v3/apps/'' @ guid @ ''/droplets/current''))"
  then obtain u where u: "parse (addr c @ ''/v3/apps/'' @ guid @ ''/droplets/current'') = Inr u"
    by (cases "parse (addr c @ ''/v3/apps/'' @ guid @ ''/droplets/current'')") auto
  from h u d
  show "\<exists>req. GetDropletGuid parse ddecode c guid (Inr resp # rs, log) =
          (Inl (case broken (resp_Body resp) of
                  Some err \<Rightarrow> err
                | None \<Rightarrow> UnexpectedResponse (StatusCode resp) (content (resp_Body resp))),
           (rs, log @ [req]))"
    by (simp add: GetDropletGuid_def replay_Cons ReadAll_def split: option.splits)
  from h u d
  show "\<exists>req. GetPackageGuid parse ddecode gdecode c guid (Inr resp # rs, log) =
          (Inl (case broken (resp_Body resp) of
                  Some err \<Rightarrow> err
                | None \<Rightarrow> UnexpectedResponse (StatusCode resp) (content (resp_Body resp))),
           (rs, log @ [req]))"
    by (simp add: GetPackageGuid_def replay_Cons ReadAll_def split: option.splits)
next
  assume h: "StatusCode resp \<noteq> 200 \<and>
      \<not> isl (parse (addr c @ ''/v3/apps/'' @ guid @ ''/droplets/current'')) \<and>
      StatusCode dresp = 200 \<and> ddecode (resp_Body dresp) = Inr href \<and> href \<noteq> [] \<and>
      \<not> isl (parse (http_for_https href))"
  then obtain u where u: "parse (addr c @ ''/v3/apps/'' @ guid @ ''/droplets/current'') = Inr u"
    by (cases "parse (addr c @ ''/v3/apps/'' @ guid @ ''/droplets/current'')") auto
  from h obtain u2 where u2: "parse (http_for_https href) = Inr u2"
    by (cases "parse (http_for_https href)") auto
  from h u u2 d
  show "\<exists>req1 req2.
          GetPackageGuid parse ddecode gdecode c guid (Inr dresp # Inr resp # rs, log) =
            (Inl (case broken (resp_Body resp) of
                    Some err \<Rightarrow> err
                  | None \<Rightarrow> UnexpectedResponse (StatusCode resp) (content (resp_Body resp))),
             (rs, log @ [req1, req2]))"
    by (simp add: GetPackageGuid_def replay_Cons ReadAll_def split: option.splits)
qed


text \<open>
  Every operation on a response with status 500 and body \<open>boom\<close>; for the second
  request of GetPackageGuid the first one is answered with a droplet that has a package
  link.
\<close>

theorem unexpected_status_is_an_error_witness:
  "(\<exists>req. Processes_loop (Suc 0) simple_Parse (table_decoder ([] :: (string \<times> string Page) list))
            example_client ''app-1'' ''http://host'' [] ([ok 500 ''boom''], []) =
          Some (Inl (UnexpectedStatusCode 500 ''boom''), ([], [req]))) \<and>
   (\<exists>req. ProcessStats_loop (Suc 0) simple_Parse
            (table_decoder ([] :: (string \<times> string Page) list))
            example_client ''app-1'' ''http://host'' [] ([ok 500 ''boom''], []) =
          Some (Inl (UnexpectedStatusCode 500 ''boom''), ([], [req]))) \<and>
   (\<exists>req. ListTasks_loop (Suc 0) simple_Parse simple_ParseQuery (keyed_Encode [])
            (table_decoder []) example_client ''app-1'' [] ''http://host'' []
            ([ok 500 ''boom''], []) =
          Some (Inl (UnexpectedStatusCode 500 ''boom''), ([], [req]))) \<and>
   (\<exists>req. GetTask simple_Parse (table_decoder []) example_client ''app-1''
            ([ok 500 ''boom''], []) = (Inl (UnexpectedStatusCode 500 ''boom''), ([], [req]))) \<and>
   (\<exists>req. GetEnvironmentVariables simple_Parse (table_decoder []) example_client ''app-1''
            ([ok 500 ''boom''], []) = (Inl (UnexpectedStatusCode 500 ''boom''), ([], [req]))) \<and>
   (\<exists>req. CreateTask simple_Parse (table_decoder []) example_client ''ls'' 0
            ([ok 500 ''boom''], []) = Some (Inl (UnexpectedStatusCode 500 ''boom''), ([], [req]))) \<and>
   (\<exists>req. RunTask simple_Parse (table_decoder []) example_client ''ls'' ''list'' [] ''app-1''
            ([ok 500 ''boom''], []) = (Inl (UnexpectedStatusCode 500 ''boom''), ([], [req]))) \<and>
   (\<exists>req. GetAppGuid simple_Parse (table_decoder []) example_client ''app''
            ([ok 500 ''boom''], []) = (Inl (UnexpectedResponse 500 ''boom''), ([], [req]))) \<and>
   (\<exists>req. GetDropletGuid simple_Parse
            (table_decoder [(''droplet'', ''https://host/v3/packages/p-1'')])
            example_client ''app-1'' ([ok 500 ''boom''], []) = (Inl (UnexpectedResponse 500 ''boom''), ([], [req]))) \<and>
   (\<exists>req. GetPackageGuid simple_Parse
            (table_decoder [(''droplet'', ''https://host/v3/packages/p-1'')]) (table_decoder [])
            example_client ''app-1'' ([ok 500 ''boom''], []) = (Inl (UnexpectedResponse 500 ''boom''), ([], [req]))) \<and>
   (\<exists>req1 req2.
      GetPackageGuid simple_Parse
        (table_decoder [(''droplet'', ''https://host/v3/packages/p-1'')]) (table_decoder [])
        example_client ''app-1'' ([ok 200 ''droplet'', ok 500 ''boom''], []) =
        (Inl (UnexpectedResponse 500 ''boom''), ([], [req1, req2])))"
  using unexpected_status_is_an_error
    [where c = example_client and parse = simple_Parse
       and resp = "\<lparr>StatusCode = 500, resp_Body = \<lparr>content = ''boom'', broken = None\<rparr>\<rparr>"
       and dresp = "\<lparr>StatusCode = 200, resp_Body = \<lparr>content = ''droplet'', broken = None\<rparr>\<rparr>"
       and a = "''http://host''" and fuel = 0 and rs = "[]" and log = "[]"
       and guid = "''app-1''" and appName = "''app''" and command = "''ls''"
       and name = "''list''" and droplet = "[]" and query = "[]"
       and processes = "[]" and stats = "[]" and tasks = "[]"
       and pdecode = "table_decoder ([] :: (string \<times> string Page) list)"
       and sdecode = "table_decoder ([] :: (string \<times> string Page) list)"
       and tdecode = "table_decoder []" and kdecode = "table_decoder []"
       and vdecode = "table_decoder []" and cdecode = "table_decoder []"
       and adecode = "table_decoder []" and gdecode = "table_decoder []"
       and ddecode = "table_decoder [(''droplet'', ''https://host/v3/packages/p-1'')]"
       and href = "''https://host/v3/packages/p-1''"
       and pq = simple_ParseQuery and enc = "keyed_Encode []",
     OF example_client_simps(4)]
  by (simp add: ok_def example_client_simps table_decoder_def simple_Parse_def
      http_for_https_def)

subsection \<open>The two models of the task poller\<close>

text \<open>With a sleep that leaves the world as it is, the poller with its sleep is the
  poller of the sections above.\<close>

lemma CreateTask_sleep_loop_no_sleep:
  "CreateTask_sleep_loop (\<lambda>d s. s) interval fuel parse decode c resp s =
   CreateTask_loop fuel parse decode c resp s"
proof (induction fuel arbitrary: resp s)
  case 0
  show ?case by simp
next
  case (Suc fuel)
  show ?case
    by (simp add: Suc.IH Let_def split: sum.splits prod.splits)
qed

lemma CreateTask_sleep_no_sleep:
  "CreateTask_sleep (\<lambda>d s. s) parse decode c command interval fuel s =
   CreateTask parse decode c command fuel s"
  by (simp add: CreateTask_sleep_def CreateTask_def CreateTask_sleep_loop_no_sleep
      split: sum.splits prod.splits)

text \<open>
  On the clocked world the poller never returns before the end of its sleep: after a
  RUNNING envelope the clock has advanced by the whole interval, whenever the signal of
  the context fires.
\<close>

lemma replay_ctx_now: "replay_ctx w req = (r, w') \<Longrightarrow> now w' = now w"
  by (auto simp: replay_ctx_def split: if_splits prod.splits)

lemma CreateTask_sleep_loop_clock:
  assumes d: "doer c = replay_ctx"
  shows "CreateTask_sleep_loop Sleep interval fuel parse decode c resp w = Some (r, w') \<Longrightarrow>
         now w \<le> now w'"
proof (induction fuel arbitrary: resp w)
  case 0
  then show ?case by simp
next
  case (Suc fuel)
  show ?case
  proof (cases "decode (resp_Body resp)")
    case (Inl err)
    with Suc.prems show ?thesis by simp
  next
    case (Inr results)
    show ?thesis
    proof (cases "ts_State results = ''RUNNING''")
      case False
      with Inr Suc.prems show ?thesis by (auto split: if_splits)
    next
      case True
      show ?thesis
      proof (cases "parse (http_for_https (Self_Href results))")
        case (Inl err)
        with Inr True Suc.prems show ?thesis by (auto simp: Sleep_def)
      next
        case u: (Inr u)
        obtain x w1 where call: "replay_ctx (Sleep interval w)
            \<lparr>req_URL = u, req_Method = ''GET'', req_Header = [], req_Body = NoBody\<rparr> = (x, w1)"
          by (cases "replay_ctx (Sleep interval w)
            \<lparr>req_URL = u, req_Method = ''GET'', req_Header = [], req_Body = NoBody\<rparr>")
        from replay_ctx_now[OF call] have w1: "now w \<le> now w1" by (simp add: Sleep_def)
        show ?thesis
        proof (cases x)
          case (Inl err)
          with Inr True u call Suc.prems d w1 show ?thesis by auto
        next
          case r': (Inr resp')
          with Inr True u call Suc.prems d
          have "CreateTask_sleep_loop Sleep interval fuel parse decode c resp' w1 = Some (r, w')"
            by simp
          from Suc.IH[OF this] w1 show ?thesis by simp
        qed
      qed
    qed
  qed
qed

lemma CreateTask_sleep_loop_waits:
  assumes d: "doer c = replay_ctx"
    and run: "decode (resp_Body resp) = Inr results" "ts_State results = ''RUNNING''"
    and ret: "CreateTask_sleep_loop Sleep interval fuel parse decode c resp w = Some (r, w')"
  shows "now w + max 0 interval \<le> now w'"
proof -
  from ret obtain f where fuel: "fuel = Suc f" by (cases fuel) auto
  show ?thesis
  proof (cases "parse (http_for_https (Self_Href results))")
    case (Inl err)
    with run ret fuel show ?thesis by (auto simp: Sleep_def)
  next
    case u: (Inr u)
    obtain x w1 where call: "replay_ctx (Sleep interval w)
        \<lparr>req_URL = u, req_Method = ''GET'', req_Header = [], req_Body = NoBody\<rparr> = (x, w1)"
      by (cases "replay_ctx (Sleep interval w)
        \<lparr>req_URL = u, req_Method = ''GET'', req_Header = [], req_Body = NoBody\<rparr>")
    from replay_ctx_now[OF call] have w1: "now w1 = now w + max 0 interval"
      by (simp add: Sleep_def)
    show ?thesis
    proof (cases x)
      case (Inl err)
      with run u call ret fuel d w1 show ?thesis by auto
    next
      case r': (Inr resp')
      with run u call ret fuel d
      have "CreateTask_sleep_loop Sleep interval f parse decode c resp' w1 = Some (r, w')"
        by simp
      from CreateTask_sleep_loop_clock[OF d this] w1 show ?thesis by simp
    qed
  qed
qed

subsection \<open>Cancellation during the sleep\<close>

text \<open>
  Claim C9 says that the poller returns promptly when the signal fires during the
  sleep. The sleep of CreateTask asks no context. With an interval of 10, a POST
  answered at time 0 with a RUNNING envelope and a signal that fires at time 1, the
  poller sleeps until time 10, sends its GET with the cancelled context and returns the
  error of the context at time 10.
\<close>

theorem CreateTask_sleeps_through_cancellation:
  "CreateTask_sleep Sleep simple_Parse
     (table_decoder
        [(''running'', \<lparr>ts_State = ''RUNNING'', Self_Href = ''https://host/v3/tasks/t-1''\<rparr>),
         (''succeeded'', \<lparr>ts_State = ''SUCCEEDED'', Self_Href = ''https://host/v3/tasks/t-1''\<rparr>)])
     (NewClient ''https://host'' ''app-0'' ''space-0'' replay_ctx) ''ls'' 10 2
     \<lparr>now = 0, cancel_at = Some 1,
      transport = ([ok 202 ''running'', ok 200 ''succeeded''], [])\<rparr> =
   Some (Inl (Failure ''context canceled''),
         \<lparr>now = 10, cancel_at = Some 1,
          transport =
            ([ok 200 ''succeeded''],
             [\<lparr>req_URL = \<lparr>Scheme = ''http'', Host = ''host'', Path = ''/v3/apps/app-0/tasks'',
                          RawQuery = []\<rparr>,
               req_Method = ''POST'',
               req_Header = [(''Content-Type'', [''application/json''])],
               req_Body = JSON \<lparr>tr_Command = ''ls'', tr_Name = [], tr_DropletGuid = []\<rparr>\<rparr>,
              \<lparr>req_URL = \<lparr>Scheme = ''http'', Host = ''host'', Path = ''/v3/tasks/t-1'',
                          RawQuery = []\<rparr>,
               req_Method = ''GET'', req_Header = [], req_Body = NoBody\<rparr>])\<rparr>)"
  by (simp add: CreateTask_sleep_def NewClient_def numeral_2_eq_2 replay_ctx_def replay_def
      context_done_def Sleep_def ok_def table_decoder_def simple_Parse_def http_for_https_def)

end
